theory Spec2Isabelle
  imports Complex_Main "HOL-Library.Sublist"
begin

section \<open>Go strings\<close>

text \<open>
  A Go string is a sequence of bytes; \<open>len\<close> counts bytes.  \<open>strings.TrimSpace\<close> removes
  every leading and trailing white-space rune.  The white-space runes of \<open>unicode.IsSpace\<close>
  are listed here by their UTF-8 encodings: the six ASCII ones, U+0085, U+00A0, U+1680,
  U+2000 to U+200A, U+2028, U+2029, U+202F, U+205F and U+3000.
\<close>

definition asciiSpace :: "char list" where
  "asciiSpace = [CHR 0x09, CHR 0x0A, CHR 0x0B, CHR 0x0C, CHR 0x0D, CHR 0x20]"

definition spaceRunes :: "string list" where
  "spaceRunes = map (\<lambda>c. [c]) asciiSpace @
     [[CHR 0xC2, CHR 0x85], [CHR 0xC2, CHR 0xA0], [CHR 0xE1, CHR 0x9A, CHR 0x80]] @
     map (\<lambda>c. [CHR 0xE2, CHR 0x80, c])
       [CHR 0x80, CHR 0x81, CHR 0x82, CHR 0x83, CHR 0x84, CHR 0x85, CHR 0x86, CHR 0x87,
        CHR 0x88, CHR 0x89, CHR 0x8A, CHR 0xA8, CHR 0xA9, CHR 0xAF] @
     [[CHR 0xE2, CHR 0x81, CHR 0x9F], [CHR 0xE3, CHR 0x80, CHR 0x80]]"

fun stripRune :: "string list \<Rightarrow> string \<Rightarrow> string option" where
  "stripRune [] s = None"
| "stripRune (w # ws) s =
     (if w \<noteq> [] \<and> prefix w s then Some (drop (length w) s) else stripRune ws s)"

lemma stripRune_shorter: "stripRune ws s = Some r \<Longrightarrow> length r < length s"
  by (induction ws) (auto split: if_splits simp: prefix_def)

function trimRunes :: "string list \<Rightarrow> string \<Rightarrow> string" where
  "trimRunes ws s = (case stripRune ws s of None \<Rightarrow> s | Some r \<Rightarrow> trimRunes ws r)"
  by pat_completeness auto
termination
  by (relation "measure (\<lambda>(ws, s). length s)") (auto simp: stripRune_shorter)

declare trimRunes.simps [simp del]

definition TrimSpace :: "string \<Rightarrow> string" where
  "TrimSpace s = rev (trimRunes (map rev spaceRunes) (rev (trimRunes spaceRunes s)))"

text \<open>
  \<open>strings.ToLower\<close> has a byte-wise path for strings that are ASCII throughout; any other
  string is mapped rune by rune through the Unicode case tables, which are not part of this
  program: that mapping is the parameter \<open>uni\<close>.
\<close>

definition asciiLower :: "char \<Rightarrow> char" where
  "asciiLower c = (if 65 \<le> (of_char c :: nat) \<and> (of_char c :: nat) \<le> 90
                   then char_of ((of_char c :: nat) + 32) else c)"

definition ToLower :: "(string \<Rightarrow> string) \<Rightarrow> string \<Rightarrow> string" where
  "ToLower uni s =
     (if \<forall>c \<in> set s. (of_char c :: nat) < 128 then map asciiLower s else uni s)"

definition Contains :: "string \<Rightarrow> string \<Rightarrow> bool" where
  "Contains s substr = sublist substr s"

section \<open>float64 arithmetic\<close>

text \<open>
  A finite float64 is modelled by the rational number it denotes.  Every operation is the
  exact operation followed by rounding to 53 significant bits, ties to even (\<open>fl\<close>); a
  literal and an integer conversion round in the same way.  The exponent range is not
  bounded: the magnitudes that occur in this program (lengths, scores and their quotients)
  stay far inside the normal range, and no division by zero is reachable.  Each operation
  is rounded on its own, which is what the Go compiler emits where it does not fuse a
  multiplication with an addition.
\<close>

type_synonym float64 = rat

definition rne :: "rat \<Rightarrow> int" where
  "rne y = (let f = \<lfloor>y\<rfloor>; d = y - of_int f in
     if d < 1/2 then f else if 1/2 < d then f + 1 else if even f then f else f + 1)"

function bitlength :: "int \<Rightarrow> int" where
  "bitlength n = (if n \<le> 0 then 0 else 1 + bitlength (n div 2))"
  by pat_completeness auto
termination
  by (relation "measure nat") auto

declare bitlength.simps [simp del]

definition expo :: "rat \<Rightarrow> int" where
  "expo x = (let (p, q) = quotient_of \<bar>x\<bar>;
                 d = bitlength p - bitlength q
             in if power_int 2 d \<le> \<bar>x\<bar> then d else d - 1)"

definition fl :: "rat \<Rightarrow> float64" where
  "fl x = (if x = 0 then 0 else
     let u = power_int 2 (expo x - 52) in of_int (rne (x / u)) * u)"

definition fadd :: "float64 \<Rightarrow> float64 \<Rightarrow> float64" where
  "fadd x y = fl (x + y)"

definition fmul :: "float64 \<Rightarrow> float64 \<Rightarrow> float64" where
  "fmul x y = fl (x * y)"

definition fdiv :: "float64 \<Rightarrow> float64 \<Rightarrow> float64" where
  "fdiv x y = fl (x / y)"

definition float64_of_int :: "int \<Rightarrow> float64" where
  "float64_of_int n = fl (of_int n)"

section \<open>Package types\<close>

type_synonym Time = int

record Artist =
  Artist_ID :: string
  Artist_Name :: string
  Artist_URI :: string
  Artist_Genres :: "string list"

record Album =
  Album_ID :: string
  Album_Name :: string
  Album_Type :: string

record Track =
  Track_ID :: string
  Track_Name :: string
  Track_URI :: string
  Track_Artists :: "Artist list"
  Track_Duration :: int
  Track_Album :: Album

record Playlist =
  Playlist_ID :: string
  Playlist_Name :: string
  Playlist_URI :: string
  TrackCount :: int
  EmbedURL :: string
  IsIncoming :: bool

record DuplicateResult =
  HasDuplicates :: bool
  DuplicateTracks :: "Track list"
  LastAdded :: Time
  ArtistName :: string
  Message :: string

record Song =
  Song_Artist :: string
  Song_Title :: string
  Song_Album :: string
  PlayedAt :: Time
  RawText :: string

definition IsValid :: "Song \<Rightarrow> bool" where
  "IsValid s = (Song_Artist s \<noteq> [] \<and> Song_Title s \<noteq> [])"

definition Song_String :: "Song \<Rightarrow> string" where
  "Song_String s =
     (if Song_Album s \<noteq> []
      then Song_Artist s @ '' - '' @ Song_Title s @ '' ('' @ Song_Album s @ '')''
      else Song_Artist s @ '' - '' @ Song_Title s)"

record SongCollection =
  Songs :: "Song list"
  LastUpdated :: Time
  Source :: string

definition AddSong :: "SongCollection \<Rightarrow> Song \<Rightarrow> SongCollection" where
  "AddSong sc song = sc\<lparr>Songs := Songs sc @ [song]\<rparr>"

text \<open>
  Errors are values.  \<open>ErrExternal\<close> is an error handed back by a collaborator outside this
  program (the catalog service, the HTTP transport, the JSON decoder); every other
  constructor is one \<open>fmt.Errorf\<close> site, an argument of type \<open>error\<close> being the wrapped
  cause.  \<open>ErrNilResponse\<close> stands for the run-time panic of reading a nil response.
\<close>

datatype error =
    ErrExternal string
  | ErrArtistQueryEmpty
  | ErrSearchArtist error
  | ErrGetArtistTracks error
  | ErrNoTracksFound string
  | ErrCheckTracksInPlaylist error
  | ErrCreateRequest error
  | ErrRequestAfterAttempts nat error
  | ErrAPIStatus nat string
  | ErrDecodeJSON error
  | ErrParseResponse error
  | ErrUnmarshalTrack error
  | ErrMissingFields string string
  | ErrUnparsableTimestamp string
  | ErrNilResponse

text \<open>
  The catalog service is an interface whose implementation talks to a remote system.  Each
  method takes the remote state and returns the new one; the program's calls are also
  appended to a trace, so that "no remote call" is a statement about the trace.  A method
  with a Go result \<open>(*T, error)\<close> returns either the error or the value.
\<close>

record 'r SpotifyService =
  SearchArtist :: "string \<Rightarrow> 'r \<Rightarrow> (error + Artist) \<times> 'r"
  GetArtistTopTracks :: "string \<Rightarrow> 'r \<Rightarrow> (error + Track list) \<times> 'r"
  CheckTracksInPlaylist :: "string \<Rightarrow> string list \<Rightarrow> 'r \<Rightarrow> (error + bool list) \<times> 'r"
  AddTracksToPlaylist :: "string \<Rightarrow> string list \<Rightarrow> 'r \<Rightarrow> error option \<times> 'r"

datatype call =
    SearchArtistCall string
  | GetArtistTopTracksCall string
  | CheckTracksInPlaylistCall string "string list"
  | AddTracksToPlaylistCall string "string list"

type_synonym 'r world = "'r \<times> call list"

definition doSearchArtist ::
  "'r SpotifyService \<Rightarrow> string \<Rightarrow> 'r world \<Rightarrow> (error + Artist) \<times> 'r world" where
  "doSearchArtist svc q w =
     (case SearchArtist svc q (fst w) of
        (res, r') \<Rightarrow> (res, (r', snd w @ [SearchArtistCall q])))"

definition doGetArtistTopTracks ::
  "'r SpotifyService \<Rightarrow> string \<Rightarrow> 'r world \<Rightarrow> (error + Track list) \<times> 'r world" where
  "doGetArtistTopTracks svc artistID w =
     (case GetArtistTopTracks svc artistID (fst w) of
        (res, r') \<Rightarrow> (res, (r', snd w @ [GetArtistTopTracksCall artistID])))"

definition doCheckTracksInPlaylist ::
  "'r SpotifyService \<Rightarrow> string \<Rightarrow> string list \<Rightarrow> 'r world \<Rightarrow> (error + bool list) \<times> 'r world" where
  "doCheckTracksInPlaylist svc playlistID trackIDs w =
     (case CheckTracksInPlaylist svc playlistID trackIDs (fst w) of
        (res, r') \<Rightarrow> (res, (r', snd w @ [CheckTracksInPlaylistCall playlistID trackIDs])))"

definition doAddTracksToPlaylist ::
  "'r SpotifyService \<Rightarrow> string \<Rightarrow> string list \<Rightarrow> 'r world \<Rightarrow> error option \<times> 'r world" where
  "doAddTracksToPlaylist svc playlistID trackIDs w =
     (case AddTracksToPlaylist svc playlistID trackIDs (fst w) of
        (res, r') \<Rightarrow> (res, (r', snd w @ [AddTracksToPlaylistCall playlistID trackIDs])))"

section \<open>Package search: the catalog matcher\<close>

text \<open>
  The matcher depends on two libraries that are not part of this program: the Unicode case
  tables behind \<open>strings.ToLower\<close> and the fuzzy scorer \<open>fuzzy.Find\<close>, which returns the
  list of matches of a pattern in a list of strings, best first.  Both are parameters.
  Logging is not modelled.
\<close>

record fuzzy_Match =
  Str :: string
  Index :: int
  MatchedIndexes :: "int list"
  Score :: int

record golib =
  unicode_ToLower :: "string \<Rightarrow> string"
  fuzzy_Find :: "string \<Rightarrow> string list \<Rightarrow> fuzzy_Match list"

definition lit :: "rat \<Rightarrow> float64" where
  "lit c = fl c"

record SongMatch =
  Match_Artist :: Artist
  Match_Track :: Track
  ArtistQuery :: string
  SongQuery :: string
  AlbumQuery :: string
  ArtistConfidence :: float64
  SongConfidence :: float64
  AlbumConfidence :: float64
  OverallConfidence :: float64

record 'r FuzzySongSearcher =
  spotify :: "'r SpotifyService"

definition calculateMatchConfidence :: "golib \<Rightarrow> string \<Rightarrow> string \<Rightarrow> float64" where
  "calculateMatchConfidence lib query itemName =
     (let normalizedQuery = ToLower (unicode_ToLower lib) (TrimSpace query);
          normalizedItem = ToLower (unicode_ToLower lib) (TrimSpace itemName)
      in if normalizedQuery = normalizedItem then lit 1
         else if Contains normalizedItem normalizedQuery then
           (let ratio = fdiv (float64_of_int (int (length normalizedQuery)))
                             (float64_of_int (int (length normalizedItem)))
            in fadd (lit (8/10)) (fmul ratio (lit (2/10))))
         else if Contains normalizedQuery normalizedItem then
           (let ratio = fdiv (float64_of_int (int (length normalizedItem)))
                             (float64_of_int (int (length normalizedQuery)))
            in fadd (lit (7/10)) (fmul ratio (lit (2/10))))
         else
           (case fuzzy_Find lib normalizedQuery [normalizedItem] of
              [] \<Rightarrow> lit (1/10)
            | m # _ \<Rightarrow>
               (let fuzzyScore = float64_of_int (Score m);
                    maxExpectedScore = float64_of_int (int (length normalizedQuery) * 2);
                    confidence = fmul (fdiv fuzzyScore maxExpectedScore) (lit (7/10));
                    confidence = (if confidence > lit (7/10) then lit (7/10) else confidence);
                    confidence = (if confidence < lit (1/10) then lit (1/10) else confidence)
                in confidence)))"

definition calculateAlbumConfidence :: "golib \<Rightarrow> string \<Rightarrow> Track option \<Rightarrow> float64" where
  "calculateAlbumConfidence lib albumQuery track =
     (if TrimSpace albumQuery = [] then lit (5/10)
      else case track of
        None \<Rightarrow> lit (5/10)
      | Some t \<Rightarrow>
          if TrimSpace (Album_Name (Track_Album t)) = [] then lit (5/10)
          else calculateMatchConfidence lib albumQuery (Album_Name (Track_Album t)))"

text \<open>
  The loop over \<open>tracks[1:]\<close>; the accumulator is the quadruple of \<open>bestTrack\<close>,
  \<open>bestSongConfidence\<close>, \<open>bestAlbumConfidence\<close> and \<open>bestOverallConfidence\<close>.
\<close>

fun bestTrackLoop ::
  "golib \<Rightarrow> float64 \<Rightarrow> string \<Rightarrow> string \<Rightarrow> Track list \<Rightarrow>
     Track \<times> float64 \<times> float64 \<times> float64 \<Rightarrow> Track \<times> float64 \<times> float64 \<times> float64" where
  "bestTrackLoop lib artistConfidence songQuery albumQuery [] best = best"
| "bestTrackLoop lib artistConfidence songQuery albumQuery (track # rest)
       (bestTrack, bestSongConfidence, bestAlbumConfidence, bestOverallConfidence) =
     (let trackSongConfidence = calculateMatchConfidence lib songQuery (Track_Name track);
          trackAlbumConfidence = calculateAlbumConfidence lib albumQuery (Some track);
          trackOverallConfidence =
            fadd (fadd (fmul artistConfidence (lit (5/10)))
                       (fmul trackSongConfidence (lit (35/100))))
                 (fmul trackAlbumConfidence (lit (15/100)))
      in if trackOverallConfidence > bestOverallConfidence
         then bestTrackLoop lib artistConfidence songQuery albumQuery rest
                (track, trackSongConfidence, trackAlbumConfidence, trackOverallConfidence)
         else bestTrackLoop lib artistConfidence songQuery albumQuery rest
                (bestTrack, bestSongConfidence, bestAlbumConfidence, bestOverallConfidence))"

definition FindBestSongMatchWithAlbum ::
  "golib \<Rightarrow> 'r FuzzySongSearcher \<Rightarrow> string \<Rightarrow> string \<Rightarrow> string \<Rightarrow> 'r world \<Rightarrow>
     (error + SongMatch) \<times> 'r world" where
  "FindBestSongMatchWithAlbum lib f artistQuery songQuery albumQuery w =
     (if TrimSpace artistQuery = [] then (Inl ErrArtistQueryEmpty, w)
      else case doSearchArtist (spotify f) artistQuery w of
        (Inl err, w1) \<Rightarrow> (Inl (ErrSearchArtist err), w1)
      | (Inr artist, w1) \<Rightarrow>
         (let artistConfidence = calculateMatchConfidence lib artistQuery (Artist_Name artist)
          in case doGetArtistTopTracks (spotify f) (Artist_ID artist) w1 of
            (Inl err, w2) \<Rightarrow> (Inl (ErrGetArtistTracks err), w2)
          | (Inr [], w2) \<Rightarrow> (Inl (ErrNoTracksFound (Artist_Name artist)), w2)
          | (Inr (track0 # rest), w2) \<Rightarrow>
             if TrimSpace songQuery = [] then
               (let albumConfidence = calculateAlbumConfidence lib albumQuery (Some track0);
                    overallConfidence =
                      fadd (fadd (fmul artistConfidence (lit (5/10))) (lit (1 * (35/100))))
                           (fmul albumConfidence (lit (15/100)))
                in (Inr \<lparr>Match_Artist = artist, Match_Track = track0,
                          ArtistQuery = artistQuery, SongQuery = [], AlbumQuery = albumQuery,
                          ArtistConfidence = artistConfidence, SongConfidence = lit 1,
                          AlbumConfidence = albumConfidence,
                          OverallConfidence = overallConfidence\<rparr>, w2))
             else
               (let bestSongConfidence = calculateMatchConfidence lib songQuery (Track_Name track0);
                    bestAlbumConfidence = calculateAlbumConfidence lib albumQuery (Some track0);
                    bestOverallConfidence =
                      fadd (fadd (fmul artistConfidence (lit (5/10)))
                                 (fmul bestSongConfidence (lit (35/100))))
                           (fmul bestAlbumConfidence (lit (15/100)))
                in case bestTrackLoop lib artistConfidence songQuery albumQuery rest
                          (track0, bestSongConfidence, bestAlbumConfidence, bestOverallConfidence) of
                     (bestTrack, bestSong, bestAlbum, overallConfidence) \<Rightarrow>
                       (Inr \<lparr>Match_Artist = artist, Match_Track = bestTrack,
                              ArtistQuery = artistQuery, SongQuery = songQuery,
                              AlbumQuery = albumQuery,
                              ArtistConfidence = artistConfidence, SongConfidence = bestSong,
                              AlbumConfidence = bestAlbum,
                              OverallConfidence = overallConfidence\<rparr>, w2))))"

definition FindBestSongMatch ::
  "golib \<Rightarrow> 'r FuzzySongSearcher \<Rightarrow> string \<Rightarrow> string \<Rightarrow> 'r world \<Rightarrow>
     (error + SongMatch) \<times> 'r world" where
  "FindBestSongMatch lib f artistQuery songQuery w =
     FindBestSongMatchWithAlbum lib f artistQuery songQuery [] w"

definition IsHighConfidence :: "SongMatch \<Rightarrow> bool" where
  "IsHighConfidence sm = (OverallConfidence sm \<ge> lit (8/10))"

definition IsLowConfidence :: "SongMatch \<Rightarrow> bool" where
  "IsLowConfidence sm = (OverallConfidence sm < lit (5/10))"

section \<open>Package duplicate: the destination check\<close>

text \<open>Decimal formatting (\<open>%d\<close>) and \<open>strings.Join\<close>.\<close>

function Itoa :: "nat \<Rightarrow> string" where
  "Itoa n = (if n < 10 then [char_of (48 + n)] else Itoa (n div 10) @ [char_of (48 + n mod 10)])"
  by pat_completeness auto
termination
  by (relation "measure id") auto

declare Itoa.simps [simp del]

fun Join :: "string list \<Rightarrow> string \<Rightarrow> string" where
  "Join [] sep = []"
| "Join [x] sep = x"
| "Join (x # y # ys) sep = x @ sep @ Join (y # ys) sep"

record 'r DuplicateService =
  DuplicateService_spotify :: "'r SpotifyService"

text \<open>
  The loop that collects the duplicates ranges over \<open>existsResults\<close> and reads \<open>tracks[i]\<close>
  only where \<open>i < len(tracks)\<close>; \<open>zip\<close> stops at the shorter list in the same way.
  \<open>now\<close> is the reading of \<open>time.Now()\<close>; the zero \<open>time.Time\<close> is 0.
\<close>

definition CheckDuplicates ::
  "'r DuplicateService \<Rightarrow> Time \<Rightarrow> string \<Rightarrow> Track list \<Rightarrow> 'r world \<Rightarrow>
     (error + DuplicateResult) \<times> 'r world" where
  "CheckDuplicates d now playlistID tracks w =
     (if length tracks = 0 then
        (Inr \<lparr>HasDuplicates = False, DuplicateTracks = [], LastAdded = 0, ArtistName = [],
              Message = ''No tracks to check''\<rparr>, w)
      else
        (let trackIDs = map Track_ID tracks
         in case doCheckTracksInPlaylist (DuplicateService_spotify d) playlistID trackIDs w of
           (Inl err, w1) \<Rightarrow> (Inl (ErrCheckTracksInPlaylist err), w1)
         | (Inr existsResults, w1) \<Rightarrow>
            (let duplicateTracks = map snd (filter fst (zip existsResults tracks));
                 duplicateTrackNames = map Track_Name duplicateTracks;
                 hasDuplicates = (length duplicateTracks > 0)
             in (Inr \<lparr>HasDuplicates = hasDuplicates, DuplicateTracks = duplicateTracks,
                      LastAdded = now, ArtistName = [],
                      Message =
                        (if hasDuplicates
                         then ''Found '' @ Itoa (length duplicateTracks) @
                              '' duplicate track(s): '' @ Join duplicateTrackNames '', ''
                         else ''No duplicate tracks found'')\<rparr>, w1))))"

section \<open>Package api: the feed client\<close>

record CompleteTrack =
  CompleteTrack_ID :: string
  CompleteTrack_Duration :: int
  CompleteTrack_StartTime :: string
  CompleteTrack_ArtistName :: string
  CompleteTrack_TrackName :: string
  CompleteTrack_CollectionName :: string
  ArtistID :: int
  CollectionID :: int
  TrackID :: int
  PreviewURL :: string
  ArtworkURL30 :: string
  ArtworkURL60 :: string
  ArtworkURL100 :: string
  ReleaseDate :: string
  Country :: string
  Currency :: string
  PrimaryGenre :: string

record MinimalTrack =
  MinimalTrack_ID :: string
  MinimalTrack_Duration :: int
  MinimalTrack_StartTime :: string
  MinimalTrack_ArtistName :: string
  MinimalTrack_TrackName :: string
  MinimalTrack_CollectionName :: string

record Response =
  StatusCode :: nat
  Status :: string
  Body :: string

text \<open>A value held by a \<open>map[string]interface{}\<close>: a string, or a value of another kind.\<close>

datatype jvalue = JString string | JOther

text \<open>
  What the client takes from outside this program: the formatting of the query URL (it
  reads the time-zone database), the creation of the request, the HTTP transport, the JSON
  decoder and the clock.  \<open>Do n\<close> is the outcome of the \<open>n\<close>-th call of \<open>httpClient.Do\<close>
  within one \<open>FetchPlaylist\<close>: a transport error, or a response.  Each \<open>Unmarshal\<close> field is
  \<open>json.Unmarshal\<close> into one target type; \<open>time_Parse layout value\<close> is \<open>time.Parse\<close>.
\<close>

record api_env =
  buildAPIURL :: "Time \<Rightarrow> string"
  http_NewRequest :: "string \<Rightarrow> error option"
  Do :: "nat \<Rightarrow> error + Response"
  DecodeArray :: "string \<Rightarrow> error + string list"
  UnmarshalComplete :: "string \<Rightarrow> error + CompleteTrack"
  UnmarshalMinimal :: "string \<Rightarrow> error + MinimalTrack"
  UnmarshalMap :: "string \<Rightarrow> error + (string \<Rightarrow> jvalue option)"
  time_Parse :: "string \<Rightarrow> string \<Rightarrow> error + Time"
  time_Now :: Time

text \<open>What a \<open>FetchPlaylist\<close> call does to the outside: HTTP attempts and sleeps, in seconds.\<close>

datatype event = HTTPAttempt nat | Sleep nat

definition formats :: "string list" where
  "formats = [''2006-01-02T15:04:05Z07:00'',
              ''2006-01-02T15:04:05.999999999Z07:00'',
              ''2006-01-02T15:04:05.000Z07:00'',
              ''2006-01-02T15:04:05.000-07:00'',
              ''2006-01-02T15:04:05-07:00'',
              ''2006-01-02T15:04:05Z'',
              ''2006-01-02T15:04:05.000Z'']"

fun tryFormats :: "api_env \<Rightarrow> string list \<Rightarrow> string \<Rightarrow> error + Time" where
  "tryFormats env [] timestamp = Inl (ErrUnparsableTimestamp timestamp)"
| "tryFormats env (format # rest) timestamp =
     (case time_Parse env format timestamp of
        Inr parsedTime \<Rightarrow> Inr parsedTime
      | Inl err \<Rightarrow> tryFormats env rest timestamp)"

definition parseISO8601Timestamp :: "api_env \<Rightarrow> string \<Rightarrow> error + Time" where
  "parseISO8601Timestamp env timestamp = tryFormats env formats timestamp"

definition mapTrackToSong ::
  "api_env \<Rightarrow> string \<Rightarrow> string \<Rightarrow> string \<Rightarrow> string \<Rightarrow> string \<Rightarrow> error + Song" where
  "mapTrackToSong env artistName trackName collectionName startTime rawJSON =
     (let song = \<lparr>Song_Artist = TrimSpace artistName, Song_Title = TrimSpace trackName,
                  Song_Album = TrimSpace collectionName, PlayedAt = 0, RawText = rawJSON\<rparr>
      in if startTime \<noteq> [] then
           (case parseISO8601Timestamp env startTime of
              Inl err \<Rightarrow> Inr (song\<lparr>PlayedAt := time_Now env\<rparr>)
            | Inr parsedTime \<Rightarrow> Inr (song\<lparr>PlayedAt := parsedTime\<rparr>))
         else Inr (song\<lparr>PlayedAt := time_Now env\<rparr>))"

definition stringField :: "(string \<Rightarrow> jvalue option) \<Rightarrow> string \<Rightarrow> string" where
  "stringField rawMap key = (case rawMap key of Some (JString s) \<Rightarrow> s | _ \<Rightarrow> [])"

definition parseTrackObject :: "api_env \<Rightarrow> string \<Rightarrow> error + Song" where
  "parseTrackObject env rawTrack =
     (case (case UnmarshalComplete env rawTrack of
              Inr completeTrack \<Rightarrow>
                if CompleteTrack_ArtistName completeTrack \<noteq> [] \<and>
                   CompleteTrack_TrackName completeTrack \<noteq> []
                then Some (mapTrackToSong env (CompleteTrack_ArtistName completeTrack)
                             (CompleteTrack_TrackName completeTrack)
                             (CompleteTrack_CollectionName completeTrack)
                             (CompleteTrack_StartTime completeTrack) rawTrack)
                else None
            | Inl err \<Rightarrow> None) of
        Some result \<Rightarrow> result
      | None \<Rightarrow>
         (case (case UnmarshalMinimal env rawTrack of
                  Inr minimalTrack \<Rightarrow>
                    if MinimalTrack_ArtistName minimalTrack \<noteq> [] \<and>
                       MinimalTrack_TrackName minimalTrack \<noteq> []
                    then Some (mapTrackToSong env (MinimalTrack_ArtistName minimalTrack)
                                 (MinimalTrack_TrackName minimalTrack)
                                 (MinimalTrack_CollectionName minimalTrack)
                                 (MinimalTrack_StartTime minimalTrack) rawTrack)
                    else None
                | Inl err \<Rightarrow> None) of
            Some result \<Rightarrow> result
          | None \<Rightarrow>
             (case UnmarshalMap env rawTrack of
                Inl err \<Rightarrow> Inl (ErrUnmarshalTrack err)
              | Inr rawMap \<Rightarrow>
                 (let artistName = stringField rawMap ''artistName'';
                      trackName = stringField rawMap ''trackName'';
                      collectionName = stringField rawMap ''collectionName'';
                      startTime = stringField rawMap ''_start_time''
                  in if artistName = [] \<or> trackName = []
                     then Inl (ErrMissingFields artistName trackName)
                     else mapTrackToSong env artistName trackName collectionName startTime
                            rawTrack))))"

fun parseTracks :: "api_env \<Rightarrow> string list \<Rightarrow> SongCollection \<Rightarrow> SongCollection" where
  "parseTracks env [] collection = collection"
| "parseTracks env (rawTrack # rest) collection =
     (case parseTrackObject env rawTrack of
        Inl err \<Rightarrow> parseTracks env rest collection
      | Inr song \<Rightarrow>
          if IsValid song then parseTracks env rest (AddSong collection song)
          else parseTracks env rest collection)"

definition parseResponse :: "api_env \<Rightarrow> string list \<Rightarrow> error + SongCollection" where
  "parseResponse env apiResponse =
     Inr (parseTracks env apiResponse
            \<lparr>Songs = [], LastUpdated = time_Now env, Source = ''kmhd_api''\<rparr>)"

definition maxRetries :: nat where
  "maxRetries = 3"

text \<open>
  The retry loop \<open>for attempt := 1; attempt <= maxRetries; attempt++\<close>.  \<open>latest\<close> is the
  pair \<open>resp, err\<close> of the latest attempt (none before the first); a pass that does not
  \<open>break\<close> sleeps \<open>attempt * 2\<close> seconds unless it was the last one.
\<close>

function retryLoop ::
  "api_env \<Rightarrow> nat \<Rightarrow> (error + Response) option \<Rightarrow> event list \<Rightarrow>
     (error + Response) option \<times> event list" where
  "retryLoop env attempt latest events =
     (if attempt \<le> maxRetries then
        (let outcome = Do env attempt;
             events = events @ [HTTPAttempt attempt]
         in if (case outcome of
                  Inr resp \<Rightarrow> StatusCode resp \<noteq> 502 \<and> StatusCode resp \<noteq> 504
                | Inl err \<Rightarrow> False)
            then (Some outcome, events)
            else if attempt < maxRetries
                 then retryLoop env (attempt + 1) (Some outcome) (events @ [Sleep (attempt * 2)])
                 else retryLoop env (attempt + 1) (Some outcome) events)
      else (latest, events))"
  by pat_completeness auto
termination
  by (relation "measure (\<lambda>(env, attempt, latest, events). maxRetries + 1 - attempt)") auto

declare retryLoop.simps [simp del]

definition FetchPlaylist :: "api_env \<Rightarrow> Time \<Rightarrow> (error + SongCollection) \<times> event list" where
  "FetchPlaylist env date =
     (case http_NewRequest env (buildAPIURL env date) of
        Some err \<Rightarrow> (Inl (ErrCreateRequest err), [])
      | None \<Rightarrow>
         (case retryLoop env 1 None [] of
            (None, events) \<Rightarrow> (Inl ErrNilResponse, events)
          | (Some (Inl err), events) \<Rightarrow> (Inl (ErrRequestAfterAttempts maxRetries err), events)
          | (Some (Inr resp), events) \<Rightarrow>
              if StatusCode resp \<noteq> 200
              then (Inl (ErrAPIStatus (StatusCode resp) (Status resp)), events)
              else (case DecodeArray env (Body resp) of
                      Inl err \<Rightarrow> (Inl (ErrDecodeJSON err), events)
                    | Inr apiResponse \<Rightarrow>
                       (case parseResponse env apiResponse of
                          Inl err \<Rightarrow> (Inl (ErrParseResponse err), events)
                        | Inr collection \<Rightarrow> (Inr collection, events)))))"

definition ScrapePlaylist :: "api_env \<Rightarrow> (error + SongCollection) \<times> event list" where
  "ScrapePlaylist env = FetchPlaylist env (time_Now env)"

section \<open>Package cmd: the sync command\<close>

text \<open>
  \<open>globalSeenSongs\<close> is a package-level map; it is passed in and returned.  A Go map read
  \<open>seenSongs[key]\<close> yields \<open>false\<close> for a missing key; the two-value read of
  \<open>globalSeenSongs\<close> tests presence.  \<open>now i\<close> is the reading of \<open>time.Now()\<close> while the
  song at index \<open>i\<close> is handled.
\<close>

fun filterLoop ::
  "(nat \<Rightarrow> Time) \<Rightarrow> nat \<Rightarrow> Song list \<Rightarrow>
     Song list \<times> (string \<Rightarrow> bool option) \<times> (string \<Rightarrow> Time option) \<Rightarrow>
     Song list \<times> (string \<Rightarrow> bool option) \<times> (string \<Rightarrow> Time option)" where
  "filterLoop now i [] state = state"
| "filterLoop now i (song # rest) (newSongs, seenSongs, globalSeenSongs) =
     (if \<not> IsValid song then filterLoop now (i + 1) rest (newSongs, seenSongs, globalSeenSongs)
      else
        (let songKey = Song_Artist song @ '' - '' @ Song_Title song;
             cycleSeenBefore = (seenSongs songKey = Some True);
             globalSeenBefore = (globalSeenSongs songKey \<noteq> None)
         in if cycleSeenBefore
            then filterLoop now (i + 1) rest (newSongs, seenSongs, globalSeenSongs)
            else if globalSeenBefore
            then filterLoop now (i + 1) rest (newSongs, seenSongs, globalSeenSongs)
            else filterLoop now (i + 1) rest
                   (newSongs @ [song], seenSongs(songKey \<mapsto> True),
                    globalSeenSongs(songKey \<mapsto> now i))))"

definition filterNewSongs ::
  "(nat \<Rightarrow> Time) \<Rightarrow> Song list \<Rightarrow> (string \<Rightarrow> bool option) \<Rightarrow> (string \<Rightarrow> Time option) \<Rightarrow>
     Song list \<times> (string \<Rightarrow> bool option) \<times> (string \<Rightarrow> Time option)" where
  "filterNewSongs now songs seenSongs globalSeenSongs =
     filterLoop now 0 songs ([], seenSongs, globalSeenSongs)"

text \<open>The lines that \<open>syncSongsToSpotify\<close> prints, one constructor for each \<open>Printf\<close>.\<close>

datatype printed =
    FoundOnKMHD string
  | CouldNotFind error
  | LowConfidenceMatch float64
  | FoundMatch string string float64 float64 float64
  | AlreadyInPlaylist string
  | FailedToAdd error
  | AddedToPlaylist string
  | SyncSummary nat nat nat string

text \<open>
  The loop over the songs; the accumulator is \<open>syncedCount\<close>, \<open>skippedCount\<close>, the lines
  printed so far and the state of the catalog service.  Each \<open>continue\<close> is a recursive
  call on the remaining songs.
\<close>

fun syncLoop ::
  "golib \<Rightarrow> 'r FuzzySongSearcher \<Rightarrow> 'r SpotifyService \<Rightarrow> Playlist \<Rightarrow> Song list \<Rightarrow>
     nat \<times> nat \<times> printed list \<times> 'r world \<Rightarrow> nat \<times> nat \<times> printed list \<times> 'r world" where
  "syncLoop lib fuzzySongSearcher spotifyService targetPlaylist [] state = state"
| "syncLoop lib fuzzySongSearcher spotifyService targetPlaylist (song # rest)
       (syncedCount, skippedCount, out, w) =
     (let out = out @ [FoundOnKMHD (Song_String song)]
      in case FindBestSongMatchWithAlbum lib fuzzySongSearcher
                (Song_Artist song) (Song_Title song) (Song_Album song) w of
        (Inl err, w1) \<Rightarrow>
          syncLoop lib fuzzySongSearcher spotifyService targetPlaylist rest
            (syncedCount, skippedCount + 1, out @ [CouldNotFind err], w1)
      | (Inr songMatch, w1) \<Rightarrow>
          if OverallConfidence songMatch < lit (5/10) then
            syncLoop lib fuzzySongSearcher spotifyService targetPlaylist rest
              (syncedCount, skippedCount + 1,
               out @ [LowConfidenceMatch (OverallConfidence songMatch)], w1)
          else
            (let out = out @ [FoundMatch (Artist_Name (Match_Artist songMatch))
                                (Track_Name (Match_Track songMatch))
                                (ArtistConfidence songMatch) (SongConfidence songMatch)
                                (OverallConfidence songMatch)];
                 trackIDs = [Track_ID (Match_Track songMatch)]
             in case doCheckTracksInPlaylist spotifyService (Playlist_ID targetPlaylist)
                       trackIDs w1 of
               (existing, w2) \<Rightarrow>
                 if (case existing of
                       Inl err \<Rightarrow> False
                     | Inr existing \<Rightarrow> length existing > 0 \<and> existing ! 0)
                 then
                   syncLoop lib fuzzySongSearcher spotifyService targetPlaylist rest
                     (syncedCount, skippedCount + 1,
                      out @ [AlreadyInPlaylist (Track_Name (Match_Track songMatch))], w2)
                 else
                   (case doAddTracksToPlaylist spotifyService (Playlist_ID targetPlaylist)
                           trackIDs w2 of
                      (Some err, w3) \<Rightarrow>
                        syncLoop lib fuzzySongSearcher spotifyService targetPlaylist rest
                          (syncedCount, skippedCount + 1, out @ [FailedToAdd err], w3)
                    | (None, w3) \<Rightarrow>
                        syncLoop lib fuzzySongSearcher spotifyService targetPlaylist rest
                          (syncedCount + 1, skippedCount,
                           out @ [AddedToPlaylist (Track_Name (Match_Track songMatch))], w3))))"

definition syncSongsToSpotify ::
  "golib \<Rightarrow> Song list \<Rightarrow> 'r SpotifyService \<Rightarrow> 'r FuzzySongSearcher \<Rightarrow> Playlist \<Rightarrow>
     (string \<Rightarrow> bool option) \<Rightarrow> 'r world \<Rightarrow> nat \<times> nat \<times> printed list \<times> 'r world" where
  "syncSongsToSpotify lib songs spotifyService fuzzySongSearcher targetPlaylist seenSongs w =
     (case syncLoop lib fuzzySongSearcher spotifyService targetPlaylist songs (0, 0, [], w) of
        (syncedCount, skippedCount, out, w') \<Rightarrow>
          (syncedCount, skippedCount,
           (if length songs > 0
            then out @ [SyncSummary (length songs) syncedCount skippedCount
                          (Playlist_Name targetPlaylist)]
            else out),
           w'))"

section \<open>Notions used in the statements\<close>

text \<open>
  A string is white space only when it is a concatenation of white-space runes (the empty
  string included); it has no white space at its ends when no white-space rune is a prefix
  or a suffix of it.  These two notions are independent of how \<open>TrimSpace\<close> computes.
\<close>

definition whitespaceOnly :: "string \<Rightarrow> bool" where
  "whitespaceOnly s = (\<exists>us. set us \<subseteq> set spaceRunes \<and> s = concat us)"

definition noSpaceAtEnds :: "string \<Rightarrow> bool" where
  "noSpaceAtEnds s = (\<forall>w \<in> set spaceRunes. \<not> prefix w s \<and> \<not> suffix w s)"

definition prefixFree :: "string list \<Rightarrow> bool" where
  "prefixFree ws = (\<forall>a \<in> set ws. a \<noteq> [] \<and> (\<forall>b \<in> set ws. prefix a b \<longrightarrow> a = b))"

text \<open>The two strings that \<open>calculateMatchConfidence\<close> compares, and a length as a float64.\<close>

definition normalized :: "golib \<Rightarrow> string \<Rightarrow> string" where
  "normalized lib s = ToLower (unicode_ToLower lib) (TrimSpace s)"

definition len64 :: "string \<Rightarrow> float64" where
  "len64 s = float64_of_int (int (length s))"

text \<open>
  An instance of the library parameters for evaluating examples: strings outside ASCII are
  left as they are, and the scorer is a table with one entry.
\<close>

definition exampleLib :: golib where
  "exampleLib =
     \<lparr>unicode_ToLower = (\<lambda>s. s),
      fuzzy_Find = (\<lambda>pattern data.
        if pattern = ''tst sng'' \<and> data = [''test song'']
        then [\<lparr>Str = ''test song'', Index = 0, MatchedIndexes = [0, 2, 3, 5, 7, 8], Score = 9\<rparr>]
        else [])\<rparr>"

text \<open>
  The weighted sum that \<open>FindBestSongMatchWithAlbum\<close> writes out at each of its three
  scoring sites, the overall confidence of one candidate track, and what it means for
  position \<open>k\<close> to hold the first maximum of \<open>f\<close> over a list.
\<close>

definition weighted :: "float64 \<Rightarrow> float64 \<Rightarrow> float64 \<Rightarrow> float64" where
  "weighted a s al =
     fadd (fadd (fmul a (lit (5/10))) (fmul s (lit (35/100)))) (fmul al (lit (15/100)))"

definition trackOverall :: "golib \<Rightarrow> float64 \<Rightarrow> string \<Rightarrow> string \<Rightarrow> Track \<Rightarrow> float64" where
  "trackOverall lib artistConfidence songQuery albumQuery t =
     weighted artistConfidence
       (calculateMatchConfidence lib songQuery (Track_Name t))
       (calculateAlbumConfidence lib albumQuery (Some t))"

definition firstMax :: "('a \<Rightarrow> rat) \<Rightarrow> 'a list \<Rightarrow> nat \<Rightarrow> bool" where
  "firstMax f xs k =
     (k < length xs \<and> (\<forall>j < length xs. f (xs ! j) \<le> f (xs ! k)) \<and> (\<forall>j < k. f (xs ! j) < f (xs ! k)))"

text \<open>
  Example collaborators: a catalog service that always answers with the same artist and
  the same tracks (its state counts the requests served) and reports no track as present.
\<close>

definition fixedService :: "Artist \<Rightarrow> Track list \<Rightarrow> nat SpotifyService" where
  "fixedService artist tracks =
     \<lparr>SearchArtist = (\<lambda>query r. (Inr artist, Suc r)),
      GetArtistTopTracks = (\<lambda>artistID r. (Inr tracks, Suc r)),
      CheckTracksInPlaylist = (\<lambda>playlistID trackIDs r. (Inr (map (\<lambda>_. False) trackIDs), Suc r)),
      AddTracksToPlaylist = (\<lambda>playlistID trackIDs r. (None, Suc r))\<rparr>"

definition mkArtist :: "string \<Rightarrow> string \<Rightarrow> Artist" where
  "mkArtist artistID name =
     \<lparr>Artist_ID = artistID, Artist_Name = name, Artist_URI = [], Artist_Genres = []\<rparr>"

definition mkTrack :: "string \<Rightarrow> string \<Rightarrow> string \<Rightarrow> Track" where
  "mkTrack trackID name album =
     \<lparr>Track_ID = trackID, Track_Name = name, Track_URI = [], Track_Artists = [],
      Track_Duration = 0,
      Track_Album = \<lparr>Album_ID = [], Album_Name = album, Album_Type = []\<rparr>\<rparr>"

definition testSearcher :: "nat FuzzySongSearcher" where
  "testSearcher =
     \<lparr>spotify = fixedService (mkArtist ''a1'' ''Test Artist'')
                  [mkTrack ''t1'' ''Test Song'' ''Test Album'']\<rparr>"

definition blueSearcher :: "nat FuzzySongSearcher" where
  "blueSearcher =
     \<lparr>spotify = fixedService (mkArtist ''a1'' ''X'')
                  [mkTrack ''t1'' ''Blue'' ''One'', mkTrack ''t2'' ''Blue Train'' ''Two'',
                   mkTrack ''t3'' ''Blue Train'' ''Two'']\<rparr>"

definition blankSongSearcher :: "nat FuzzySongSearcher" where
  "blankSongSearcher =
     \<lparr>spotify = fixedService (mkArtist ''a1'' ''X'')
                  [mkTrack ''t1'' ''A'' [], mkTrack ''t2'' ''B'' ''Two'']\<rparr>"

definition noAlbumSearcher :: "nat FuzzySongSearcher" where
  "noAlbumSearcher =
     \<lparr>spotify = fixedService (mkArtist ''a1'' ''X'') [mkTrack ''t1'' ''Y'' []]\<rparr>"

definition xyzSearcher :: "nat FuzzySongSearcher" where
  "xyzSearcher =
     \<lparr>spotify = fixedService (mkArtist ''a1'' ''X'') [mkTrack ''t1'' ''Y'' ''Z'']\<rparr>"

definition exampleDuplicateService :: "nat DuplicateService" where
  "exampleDuplicateService =
     \<lparr>DuplicateService_spotify = fixedService (mkArtist ''a1'' ''X'') [mkTrack ''t1'' ''Y'' ''Z'']\<rparr>"

text \<open>
  A transient failure of one attempt: a transport error, or a response with status 502 or
  504.  \<open>attemptsMade\<close> is the number of the first attempt among the first three that is
  not a transient failure, and 3 when there is none.
\<close>

definition transient :: "error + Response \<Rightarrow> bool" where
  "transient outcome =
     (case outcome of Inl err \<Rightarrow> True | Inr resp \<Rightarrow> StatusCode resp = 502 \<or> StatusCode resp = 504)"

definition attemptsMade :: "api_env \<Rightarrow> nat" where
  "attemptsMade env =
     (if \<not> transient (Do env 1) then 1 else if \<not> transient (Do env 2) then 2 else 3)"

fun isAttempt :: "event \<Rightarrow> bool" where
  "isAttempt (HTTPAttempt n) = True"
| "isAttempt (Sleep n) = False"

text \<open>
  The key under which a song is remembered, and the songs of a list that are the first
  with their key.
\<close>

definition SeenKey :: "Song \<Rightarrow> string" where
  "SeenKey s = Song_Artist s @ '' - '' @ Song_Title s"

function firstOfEachKey :: "Song list \<Rightarrow> Song list" where
  "firstOfEachKey [] = []"
| "firstOfEachKey (s # rest) = s # firstOfEachKey (filter (\<lambda>t. SeenKey t \<noteq> SeenKey s) rest)"
  by pat_completeness auto
termination
  by (relation "measure length") (auto simp: less_Suc_eq_le)

text \<open>The keys that a pair of maps counts as seen.\<close>

definition seenKeys :: "(string \<Rightarrow> bool option) \<Rightarrow> (string \<Rightarrow> Time option) \<Rightarrow> string set" where
  "seenKeys seenSongs globalSeenSongs = {k. seenSongs k = Some True} \<union> dom globalSeenSongs"

text \<open>A feed record with no album.\<close>

definition play :: "string \<Rightarrow> string \<Rightarrow> Time \<Rightarrow> Song" where
  "play artist title playedAt =
     \<lparr>Song_Artist = artist, Song_Title = title, Song_Album = [], PlayedAt = playedAt,
      RawText = []\<rparr>"

text \<open>The kinds of printed lines: a song announced, a song synced, a song skipped.\<close>

fun isFound :: "printed \<Rightarrow> bool" where
  "isFound (FoundOnKMHD s) = True"
| "isFound x = False"

fun isSynced :: "printed \<Rightarrow> bool" where
  "isSynced (AddedToPlaylist s) = True"
| "isSynced x = False"

fun isSkipped :: "printed \<Rightarrow> bool" where
  "isSkipped (CouldNotFind e) = True"
| "isSkipped (LowConfidenceMatch c) = True"
| "isSkipped (AlreadyInPlaylist s) = True"
| "isSkipped (FailedToAdd e) = True"
| "isSkipped x = False"

text \<open>The line printed for a match that is confident enough.\<close>

definition matchLine :: "SongMatch \<Rightarrow> printed" where
  "matchLine m =
     FoundMatch (Artist_Name (Match_Artist m)) (Track_Name (Match_Track m))
       (ArtistConfidence m) (SongConfidence m) (OverallConfidence m)"

text \<open>
  The answer of the destination check on which the loop skips the song: no error, and a
  first entry that is true.
\<close>

fun alreadyThere :: "error + bool list \<Rightarrow> bool" where
  "alreadyThere (Inr (True # bs)) = True"
| "alreadyThere existing = False"

text \<open>
  A catalog service that keeps the playlist: its state is the list of track ids added so
  far and the number of write requests received.  It always answers with the same artist
  and tracks, and it refuses the first write request.
\<close>

definition playlistService :: "Artist \<Rightarrow> Track list \<Rightarrow> (string list \<times> nat) SpotifyService" where
  "playlistService artist tracks =
     \<lparr>SearchArtist = (\<lambda>query r. (Inr artist, r)),
      GetArtistTopTracks = (\<lambda>artistID r. (Inr tracks, r)),
      CheckTracksInPlaylist =
        (\<lambda>playlistID trackIDs r. (Inr (map (\<lambda>t. t \<in> set (fst r)) trackIDs), r)),
      AddTracksToPlaylist =
        (\<lambda>playlistID trackIDs r.
           if snd r = 0 then (Some (ErrExternal ''rate limited''), (fst r, 1))
           else (None, (fst r @ trackIDs, snd r + 1)))\<rparr>"

definition examplePlaylist :: Playlist where
  "examplePlaylist =
     \<lparr>Playlist_ID = ''p1'', Playlist_Name = ''KMHD-2025-10'', Playlist_URI = [],
      TrackCount = 0, EmbedURL = [], IsIncoming = False\<rparr>"

text \<open>
  An instance of what the feed client takes from outside, for evaluating examples: the
  transport outcomes are a parameter; the decoder knows one body with three entries, of
  which the first decodes to a full record, the second to a record whose artist is white
  space only, and the third to a map without an artist.
\<close>

definition mkComplete :: "string \<Rightarrow> string \<Rightarrow> string \<Rightarrow> string \<Rightarrow> CompleteTrack" where
  "mkComplete artistName trackName collectionName startTime =
     \<lparr>CompleteTrack_ID = [], CompleteTrack_Duration = 0, CompleteTrack_StartTime = startTime,
      CompleteTrack_ArtistName = artistName, CompleteTrack_TrackName = trackName,
      CompleteTrack_CollectionName = collectionName, ArtistID = 0, CollectionID = 0,
      TrackID = 0, PreviewURL = [], ArtworkURL30 = [], ArtworkURL60 = [], ArtworkURL100 = [],
      ReleaseDate = [], Country = [], Currency = [], PrimaryGenre = []\<rparr>"

definition exampleEnv :: "(nat \<Rightarrow> error + Response) \<Rightarrow> api_env" where
  "exampleEnv outcomes =
     \<lparr>buildAPIURL = (\<lambda>date. ''https://www.kmhd.org/pf/api/v3/content/fetch/playlist''),
      http_NewRequest = (\<lambda>url. None),
      Do = outcomes,
      DecodeArray = (\<lambda>body. if body = ''[e1,e2,e3]'' then Inr [''e1'', ''e2'', ''e3'']
                              else Inl (ErrExternal ''invalid character'')),
      UnmarshalComplete = (\<lambda>raw.
        if raw = ''e1'' then Inr (mkComplete '' Miles Davis'' ''So What'' ''Kind of Blue '' [])
        else if raw = ''e2'' then Inr (mkComplete ''   '' ''Blue in Green'' [] [])
        else Inl (ErrExternal ''cannot unmarshal'')),
      UnmarshalMinimal = (\<lambda>raw. Inl (ErrExternal ''cannot unmarshal'')),
      UnmarshalMap = (\<lambda>raw.
        if raw = ''e3'' then Inr [''trackName'' \<mapsto> JString ''Freddie Freeloader'']
        else Inl (ErrExternal ''cannot unmarshal'')),
      time_Parse = (\<lambda>layout value. Inl (ErrExternal ''cannot parse'')),
      time_Now = 1000\<rparr>"

definition badGateway :: "error + Response" where
  "badGateway = Inr \<lparr>StatusCode = 502, Status = ''502 Bad Gateway'', Body = []\<rparr>"

definition okResponse :: "error + Response" where
  "okResponse = Inr \<lparr>StatusCode = 200, Status = ''200 OK'', Body = ''[e1,e2,e3]''\<rparr>"

definition exampleSongs :: "Song list" where
  "exampleSongs =
     [play ''X'' ''Y'' 1, play ''X'' ''Y'' 2, play ''X'' ''Y'' 3, play '' '' ''U'' 4,
      play ''Q'' ''W'' 5]"

definition exampleCatalog :: "(string list \<times> nat) SpotifyService" where
  "exampleCatalog = playlistService (mkArtist ''a1'' ''X'') [mkTrack ''t1'' ''Y'' ''Z'']"

text \<open>
  The two matches that the example catalog gives: the one for the song \<open>X - Y\<close> that it
  holds, and the one for a song \<open>Q - W\<close> that it does not hold.
\<close>

definition exampleMatch :: SongMatch where
  "exampleMatch =
     \<lparr>Match_Artist = mkArtist ''a1'' ''X'', Match_Track = mkTrack ''t1'' ''Y'' ''Z'',
      ArtistQuery = ''X'', SongQuery = ''Y'', AlbumQuery = [],
      ArtistConfidence = 1, SongConfidence = 1, AlbumConfidence = 1 / 2,
      OverallConfidence = 8331659310635417 / 9007199254740992\<rparr>"

definition exampleLowMatch :: SongMatch where
  "exampleLowMatch =
     \<lparr>Match_Artist = mkArtist ''a1'' ''X'', Match_Track = mkTrack ''t1'' ''Y'' ''Z'',
      ArtistQuery = ''Q'', SongQuery = ''W'', AlbumQuery = [],
      ArtistConfidence = 3602879701896397 / 36028797018963968,
      SongConfidence = 3602879701896397 / 36028797018963968, AlbumConfidence = 1 / 2,
      OverallConfidence = 2882303761517117 / 18014398509481984\<rparr>"

definition flakyThenOk :: "nat \<Rightarrow> error + Response" where
  "flakyThenOk n =
     (if n = 3 then okResponse
      else if n = 2 then Inl (ErrExternal ''connection reset'') else badGateway)"

section \<open>Properties of the string functions\<close>

lemma stripRune_None_iff:
  "stripRune ws s = None \<longleftrightarrow> (\<forall>w \<in> set ws. w = [] \<or> \<not> prefix w s)"
  by (induction ws) auto

lemma stripRune_SomeD:
  "stripRune ws s = Some r \<Longrightarrow> \<exists>w \<in> set ws. w \<noteq> [] \<and> s = w @ r"
  by (induction ws) (auto split: if_splits simp: prefix_def)

lemma trimRunes_fixed: "stripRune ws (trimRunes ws s) = None"
proof (induction ws s rule: trimRunes.induct)
  case (1 ws s)
  then show ?case
    by (cases "stripRune ws s") (simp_all add: trimRunes.simps [of ws s])
qed

lemma trimRunes_decomp:
  "\<exists>us. set us \<subseteq> set ws \<and> s = concat us @ trimRunes ws s"
proof (induction ws s rule: trimRunes.induct)
  case (1 ws s)
  show ?case
  proof (cases "stripRune ws s")
    case None
    then have "trimRunes ws s = s" by (simp add: trimRunes.simps [of ws s])
    then have "set [] \<subseteq> set ws \<and> s = concat [] @ trimRunes ws s" by simp
    then show ?thesis by blast
  next
    case (Some r)
    then obtain w where w: "w \<in> set ws" "s = w @ r" using stripRune_SomeD by blast
    from 1 [OF Some] obtain us where us: "set us \<subseteq> set ws" "r = concat us @ trimRunes ws r"
      by blast
    have "trimRunes ws s = trimRunes ws r" using Some by (simp add: trimRunes.simps [of ws s])
    with w us have "set (w # us) \<subseteq> set ws \<and> s = concat (w # us) @ trimRunes ws s" by simp
    then show ?thesis by blast
  qed
qed

lemma stripRune_hit:
  assumes "prefixFree ws" "w \<in> set ws"
  shows "stripRune ws (w @ t) = Some t"
proof (cases "stripRune ws (w @ t)")
  case None
  with assms show ?thesis by (auto simp: stripRune_None_iff prefixFree_def)
next
  case (Some r)
  then obtain v where v: "v \<in> set ws" "v \<noteq> []" "w @ t = v @ r" using stripRune_SomeD by blast
  then have "prefix v w \<or> prefix w v"
    by (metis prefixI prefix_same_cases)
  with assms v have "v = w" by (auto simp: prefixFree_def)
  with v Some show ?thesis by simp
qed

lemma trimRunes_concat:
  assumes "prefixFree ws" "set us \<subseteq> set ws"
  shows "trimRunes ws (concat us @ t) = trimRunes ws t"
  using assms(2)
proof (induction us)
  case Nil
  then show ?case by simp
next
  case (Cons u us)
  then have "stripRune ws (u @ (concat us @ t)) = Some (concat us @ t)"
    using stripRune_hit [OF assms(1)] by simp
  then have "trimRunes ws (concat (u # us) @ t) = trimRunes ws (concat us @ t)"
    by (simp add: trimRunes.simps [of ws "u @ concat us @ t"])
  with Cons show ?case by simp
qed

lemma trimRunes_Nil: "trimRunes ws [] = []"
  using stripRune_shorter [of ws "[]"]
  by (cases "stripRune ws []") (auto simp: trimRunes.simps [of ws "[]"])

lemma prefixFree_spaceRunes: "prefixFree spaceRunes"
  by code_simp

lemma prefixFree_rev_spaceRunes: "prefixFree (map rev spaceRunes)"
  by code_simp

lemma TrimSpace_empty_iff: "TrimSpace s = [] \<longleftrightarrow> whitespaceOnly s"
proof
  assume e: "TrimSpace s = []"
  obtain us where us: "set us \<subseteq> set spaceRunes" "s = concat us @ trimRunes spaceRunes s"
    using trimRunes_decomp by blast
  obtain vs where vs: "set vs \<subseteq> set (map rev spaceRunes)"
    "rev (trimRunes spaceRunes s) =
       concat vs @ trimRunes (map rev spaceRunes) (rev (trimRunes spaceRunes s))"
    using trimRunes_decomp by blast
  from e have "trimRunes (map rev spaceRunes) (rev (trimRunes spaceRunes s)) = []"
    by (simp add: TrimSpace_def)
  with vs have "trimRunes spaceRunes s = rev (concat vs)"
    by (metis append_Nil2 rev_rev_ident)
  then have a: "trimRunes spaceRunes s = concat (map rev (rev vs))"
    by (simp add: rev_concat)
  have "set (map rev (rev vs)) \<subseteq> set spaceRunes"
    using vs(1) by auto
  with us a have "set (us @ map rev (rev vs)) \<subseteq> set spaceRunes \<and> s = concat (us @ map rev (rev vs))"
    by simp
  then show "whitespaceOnly s" unfolding whitespaceOnly_def by blast
next
  assume "whitespaceOnly s"
  then obtain us where us: "set us \<subseteq> set spaceRunes" "s = concat us"
    unfolding whitespaceOnly_def by blast
  have "trimRunes spaceRunes (concat us @ []) = trimRunes spaceRunes []"
    using trimRunes_concat [OF prefixFree_spaceRunes us(1)] .
  with us show "TrimSpace s = []"
    by (simp add: TrimSpace_def trimRunes_Nil)
qed

lemma nonempty_spaceRunes: "w \<in> set spaceRunes \<Longrightarrow> w \<noteq> []"
  using prefixFree_spaceRunes by (auto simp: prefixFree_def)

lemma TrimSpace_noSpaceAtEnds: "noSpaceAtEnds (TrimSpace s)"
proof -
  define A where "A = trimRunes spaceRunes s"
  define B where "B = trimRunes (map rev spaceRunes) (rev A)"
  have ts: "TrimSpace s = rev B" by (simp add: TrimSpace_def A_def B_def)
  have nA: "\<forall>w \<in> set spaceRunes. \<not> prefix w A"
    using trimRunes_fixed [of spaceRunes s] nonempty_spaceRunes
    by (auto simp: stripRune_None_iff A_def)
  have nB: "\<forall>w \<in> set spaceRunes. \<not> prefix (rev w) B"
    using trimRunes_fixed [of "map rev spaceRunes" "rev A"] nonempty_spaceRunes
    by (auto simp: stripRune_None_iff B_def)
  obtain vs where "rev A = concat vs @ B"
    using trimRunes_decomp [of "map rev spaceRunes" "rev A"] B_def by blast
  then have "A = rev B @ rev (concat vs)"
    by (metis rev_append rev_rev_ident)
  then have pre: "prefix (rev B) A" by simp
  have "\<not> prefix w (rev B) \<and> \<not> suffix w (rev B)" if w: "w \<in> set spaceRunes" for w
  proof
    show "\<not> prefix w (rev B)" using nA w pre prefix_order.trans by blast
    show "\<not> suffix w (rev B)" using nB w by (simp add: suffix_to_prefix)
  qed
  then show ?thesis by (simp add: noSpaceAtEnds_def ts)
qed

lemma TrimSpace_idem: "TrimSpace (TrimSpace s) = TrimSpace s"
proof -
  have n: "noSpaceAtEnds (TrimSpace s)" by (rule TrimSpace_noSpaceAtEnds)
  have 1: "stripRune spaceRunes (TrimSpace s) = None"
    using n by (auto simp: stripRune_None_iff noSpaceAtEnds_def)
  have 2: "stripRune (map rev spaceRunes) (rev (TrimSpace s)) = None"
    using n by (auto simp: stripRune_None_iff noSpaceAtEnds_def suffix_to_prefix)
  show ?thesis
    by (simp add: TrimSpace_def [of "TrimSpace s"] trimRunes.simps [of _ "TrimSpace s"] 1
          trimRunes.simps [of _ "rev (TrimSpace s)"] 2)
qed

section \<open>Properties of the float64 arithmetic\<close>

lemma lit_1: "lit 1 = 1"
  by code_simp

lemma lit_half: "lit (1/2) = 1/2"
  by code_simp

lemma lit_tenth_le: "lit (1/10) \<le> lit (7/10)"
  by code_simp

lemma bitlength_nonneg: "0 \<le> bitlength n"
  by (induction n rule: bitlength.induct) (simp add: bitlength.simps)

lemma bitlength_bounds:
  "0 < n \<Longrightarrow> 2 ^ nat (bitlength n - 1) \<le> n \<and> n < 2 ^ nat (bitlength n)"
proof (induction n rule: bitlength.induct)
  case (1 n)
  show ?case
  proof (cases "n = 1")
    case True
    then show ?thesis by (simp add: bitlength.simps [of 1] bitlength.simps [of 0])
  next
    case False
    with 1 have pos: "0 < n div 2" by simp
    with 1 have ih: "2 ^ nat (bitlength (n div 2) - 1) \<le> n div 2"
      "n div 2 < 2 ^ nat (bitlength (n div 2))" by simp_all
    have bl: "bitlength n = 1 + bitlength (n div 2)" using 1(2) by (simp add: bitlength.simps [of n])
    have bpos: "0 < bitlength (n div 2)"
      using pos bitlength_nonneg [of "n div 2 div 2"] by (simp add: bitlength.simps [of "n div 2"])
    then have e1: "nat (bitlength n - 1) = Suc (nat (bitlength (n div 2) - 1))" using bl by simp
    have e2: "nat (bitlength n) = Suc (nat (bitlength (n div 2)))" using bl bpos by simp
    show ?thesis using ih unfolding e1 e2 by simp linarith
  qed
qed

lemma rne_error: "\<bar>of_int (rne y) - y\<bar> \<le> 1/2"
proof -
  have "of_int \<lfloor>y\<rfloor> \<le> y" "y < of_int \<lfloor>y\<rfloor> + 1" by linarith+
  then show ?thesis
    unfolding rne_def Let_def
    by (simp only: abs_if of_int_add of_int_1 split: if_split) linarith
qed

lemma expo_le:
  assumes "x \<noteq> 0"
  shows "power_int 2 (expo x) \<le> \<bar>x\<bar>"
proof -
  obtain p q where pq: "quotient_of \<bar>x\<bar> = (p, q)" by (cases "quotient_of \<bar>x\<bar>")
  then have q: "0 < q" and x: "\<bar>x\<bar> = of_int p / of_int q"
    using quotient_of_denom_pos quotient_of_div by blast+
  have "0 < \<bar>x\<bar>" using assms by simp
  with x q have p: "0 < p" by (simp add: zero_less_divide_iff)
  define d where "d = bitlength p - bitlength q"
  have ex: "expo x = (if power_int 2 d \<le> \<bar>x\<bar> then d else d - 1)"
    by (simp add: expo_def pq d_def Let_def)
  show ?thesis
  proof (cases "power_int 2 d \<le> \<bar>x\<bar>")
    case True
    then show ?thesis by (simp add: ex)
  next
    case False
    from bitlength_bounds [OF p] have lp: "(2::rat) ^ nat (bitlength p - 1) \<le> of_int p"
      by (metis of_int_le_iff of_int_numeral of_int_power)
    from bitlength_bounds [OF q] have uq: "of_int q < (2::rat) ^ nat (bitlength q)"
      by (metis of_int_less_iff of_int_numeral of_int_power)
    have bp: "0 < bitlength p"
      using p bitlength_nonneg [of "p div 2"] by (simp add: bitlength.simps [of p])
    have bq: "0 \<le> bitlength q" by (rule bitlength_nonneg)
    have "d - 1 = int (nat (bitlength p - 1)) - int (nat (bitlength q))"
      using bp bq by (simp add: d_def)
    then have "power_int (2::rat) (d - 1) =
        power_int 2 (int (nat (bitlength p - 1))) / power_int 2 (int (nat (bitlength q)))"
      using power_int_diff [of "2::rat" "int (nat (bitlength p - 1))" "int (nat (bitlength q))"]
      by simp
    then have "power_int 2 (d - 1) = (2::rat) ^ nat (bitlength p - 1) / 2 ^ nat (bitlength q)"
      by (simp only: power_int_of_nat)
    also have "\<dots> \<le> of_int p / 2 ^ nat (bitlength q)"
      using lp by (simp add: divide_right_mono)
    also have "\<dots> \<le> of_int p / of_int q"
      using uq q p by (simp add: frac_le)
    finally show ?thesis using False by (simp add: ex x)
  qed
qed

lemma fl_error: "\<bar>fl x - x\<bar> \<le> \<bar>x\<bar> / 2 ^ 53"
proof (cases "x = 0")
  case True
  then show ?thesis by (simp add: fl_def)
next
  case False
  define u :: rat where "u = power_int 2 (expo x - 52)"
  have upos: "0 < u" by (simp add: u_def)
  have "fl x - x = u * (of_int (rne (x / u)) - x / u)"
    using False upos by (simp add: fl_def u_def [symmetric] Let_def algebra_simps)
  then have "\<bar>fl x - x\<bar> = u * \<bar>of_int (rne (x / u)) - x / u\<bar>"
    using upos by (simp add: abs_mult)
  also have "\<dots> \<le> u * (1/2)"
    using rne_error upos by (simp add: mult_left_mono)
  also have "\<dots> = power_int 2 (expo x) / 2 ^ 53"
    by (simp add: u_def power_int_diff)
  also have "\<dots> \<le> \<bar>x\<bar> / 2 ^ 53"
    using expo_le [OF False] by (simp add: divide_right_mono)
  finally show ?thesis .
qed

lemma lit_035: "lit (7/20) = 3152519739159347 / 9007199254740992"
  by code_simp

lemma lit_015: "lit (3/20) = 5404319552844595 / 36028797018963968"
  by code_simp

lemma fl_scaled_error:
  assumes "0 \<le> c"
  shows "\<bar>fl (x * c) - x * c\<bar> \<le> \<bar>x\<bar> * c / 2 ^ 53"
  using fl_error [of "x * c"] assms by (simp add: abs_mult)

lemma weighted_error:
  "\<bar>weighted a s al - (a / 2 + 7 * s / 20 + 3 * al / 20)\<bar> \<le> (\<bar>a\<bar> + \<bar>s\<bar> + \<bar>al\<bar>) / 2 ^ 51"
proof -
  define c35 :: rat where "c35 = 3152519739159347 / 9007199254740992"
  define c15 :: rat where "c15 = 5404319552844595 / 36028797018963968"
  define p1 where "p1 = fl (a * (1/2))"
  define p2 where "p2 = fl (s * c35)"
  define p3 where "p3 = fl (al * c15)"
  define s1 where "s1 = fl (p1 + p2)"
  define A where "A = \<bar>a\<bar>"
  define S where "S = \<bar>s\<bar>"
  define L where "L = \<bar>al\<bar>"
  have nn: "0 \<le> A" "0 \<le> S" "0 \<le> L" by (simp_all add: A_def S_def L_def)
  have w: "weighted a s al = fl (s1 + p3)"
    by (simp add: weighted_def fadd_def fmul_def lit_half lit_035 lit_015
          p1_def p2_def p3_def s1_def c35_def c15_def)
  have e1: "\<bar>p1 - a * (1/2)\<bar> \<le> A * (1/2) / 2 ^ 53"
    unfolding p1_def A_def by (rule fl_scaled_error) simp
  have e2: "\<bar>p2 - s * c35\<bar> \<le> S * c35 / 2 ^ 53"
    unfolding p2_def S_def by (rule fl_scaled_error) (simp add: c35_def)
  have e3: "\<bar>p3 - al * c15\<bar> \<le> L * c15 / 2 ^ 53"
    unfolding p3_def L_def by (rule fl_scaled_error) (simp add: c15_def)
  have d2: "\<bar>s * c35 - 7 * s / 20\<bar> \<le> S / 2 ^ 54"
  proof -
    have "s * c35 - 7 * s / 20 = s * (c35 - 7/20)" by (simp add: algebra_simps)
    then have "\<bar>s * c35 - 7 * s / 20\<bar> = S * \<bar>c35 - 7/20\<bar>" by (simp add: abs_mult S_def)
    also have "\<dots> \<le> S * (1 / 2 ^ 54)"
      by (rule mult_left_mono) (simp_all add: c35_def nn)
    finally show ?thesis by simp
  qed
  have d3: "\<bar>al * c15 - 3 * al / 20\<bar> \<le> L / 2 ^ 54"
  proof -
    have "al * c15 - 3 * al / 20 = al * (c15 - 3/20)" by (simp add: algebra_simps)
    then have "\<bar>al * c15 - 3 * al / 20\<bar> = L * \<bar>c15 - 3/20\<bar>" by (simp add: abs_mult L_def)
    also have "\<dots> \<le> L * (1 / 2 ^ 54)"
      by (rule mult_left_mono) (simp_all add: c15_def nn)
    finally show ?thesis by simp
  qed
  define uA where "uA = A / 2 ^ 53"
  define uS where "uS = S / 2 ^ 53"
  define uL where "uL = L / 2 ^ 53"
  have un: "0 \<le> uA" "0 \<le> uS" "0 \<le> uL" using nn by (simp_all add: uA_def uS_def uL_def)
  have us: "uA \<le> A / 4" "uS \<le> S / 4" "uL \<le> L / 4"
    using nn by (simp_all add: uA_def uS_def uL_def)
  have e1': "\<bar>p1 - a / 2\<bar> \<le> uA" using e1 nn by (simp add: uA_def)
  have e2': "\<bar>p2 - s * c35\<bar> \<le> uS / 2"
  proof -
    have "S * c35 / 2 ^ 53 \<le> uS / 2" using nn by (simp add: c35_def uS_def)
    with e2 show ?thesis by linarith
  qed
  have e3': "\<bar>p3 - al * c15\<bar> \<le> uL / 2"
  proof -
    have "L * c15 / 2 ^ 53 \<le> uL / 2" using nn by (simp add: c15_def uL_def)
    with e3 show ?thesis by linarith
  qed
  have d2': "\<bar>s * c35 - 7 * s / 20\<bar> \<le> uS / 2" using d2 by (simp add: uS_def)
  have d3': "\<bar>al * c15 - 3 * al / 20\<bar> \<le> uL / 2" using d3 by (simp add: uL_def)
  have f2: "\<bar>p2 - 7 * s / 20\<bar> \<le> uS" using e2' d2' by linarith
  have f3: "\<bar>p3 - 3 * al / 20\<bar> \<le> uL" using e3' d3' by linarith
  have b1: "\<bar>p1\<bar> \<le> A" using e1' us(1) nn(1) A_def by linarith
  have b2: "\<bar>p2\<bar> \<le> S" using f2 us(2) nn(2) S_def by linarith
  have b3: "\<bar>p3\<bar> \<le> L" using f3 us(3) nn(3) L_def by linarith
  have g1: "\<bar>s1 - (p1 + p2)\<bar> \<le> uA + uS"
  proof -
    have "\<bar>s1 - (p1 + p2)\<bar> \<le> \<bar>p1 + p2\<bar> / 2 ^ 53" unfolding s1_def by (rule fl_error)
    moreover have "\<bar>p1 + p2\<bar> \<le> A + S" using b1 b2 by linarith
    then have "\<bar>p1 + p2\<bar> / 2 ^ 53 \<le> (A + S) / 2 ^ 53"
      by (rule divide_right_mono) simp
    moreover have "(A + S) / 2 ^ 53 = uA + uS" by (simp add: uA_def uS_def add_divide_distrib)
    ultimately show ?thesis by linarith
  qed
  have bs: "\<bar>s1\<bar> \<le> 2 * A + 2 * S" using g1 b1 b2 us(1,2) nn(1,2) by linarith
  have g2: "\<bar>fl (s1 + p3) - (s1 + p3)\<bar> \<le> 2 * uA + 2 * uS + uL"
  proof -
    have "\<bar>fl (s1 + p3) - (s1 + p3)\<bar> \<le> \<bar>s1 + p3\<bar> / 2 ^ 53" by (rule fl_error)
    moreover have "\<bar>s1 + p3\<bar> \<le> 2 * A + 2 * S + L" using bs b3 by linarith
    then have "\<bar>s1 + p3\<bar> / 2 ^ 53 \<le> (2 * A + 2 * S + L) / 2 ^ 53"
      by (rule divide_right_mono) simp
    moreover have "(2 * A + 2 * S + L) / 2 ^ 53 = 2 * uA + 2 * uS + uL"
      by (simp add: uA_def uS_def uL_def add_divide_distrib)
    ultimately show ?thesis by linarith
  qed
  have "\<bar>fl (s1 + p3) - (a / 2 + 7 * s / 20 + 3 * al / 20)\<bar> \<le> 4 * uA + 4 * uS + 4 * uL"
    using g2 g1 e1' f2 f3 un by linarith
  moreover have "4 * uA + 4 * uS + 4 * uL = (A + S + L) / 2 ^ 51"
    by (simp add: uA_def uS_def uL_def add_divide_distrib)
  ultimately have "\<bar>fl (s1 + p3) - (a / 2 + 7 * s / 20 + 3 * al / 20)\<bar> \<le> (A + S + L) / 2 ^ 51"
    by simp
  then show ?thesis by (simp add: w A_def S_def L_def)
qed

lemma weighted_ones: "weighted 1 1 1 = 1"
  by code_simp

section \<open>Properties of the matcher\<close>

definition scored :: "golib \<Rightarrow> float64 \<Rightarrow> string \<Rightarrow> string \<Rightarrow> Track \<Rightarrow>
    Track \<times> float64 \<times> float64 \<times> float64" where
  "scored lib ac sq aq t =
     (t, calculateMatchConfidence lib sq (Track_Name t),
      calculateAlbumConfidence lib aq (Some t), trackOverall lib ac sq aq t)"

lemma bestTrackLoop_firstMax:
  assumes "firstMax (trackOverall lib ac sq aq) pre i"
  shows "\<exists>k. firstMax (trackOverall lib ac sq aq) (pre @ rest) k \<and>
           bestTrackLoop lib ac sq aq rest (scored lib ac sq aq (pre ! i)) =
             scored lib ac sq aq ((pre @ rest) ! k)"
  using assms
proof (induction rest arbitrary: pre i)
  case Nil
  then show ?case by auto
next
  case (Cons t ts)
  let ?ov = "trackOverall lib ac sq aq"
  show ?case
  proof (cases "?ov t > ?ov (pre ! i)")
    case True
    have fm: "firstMax ?ov (pre @ [t]) (length pre)"
      unfolding firstMax_def
    proof (intro conjI allI impI)
      show "length pre < length (pre @ [t])" by simp
    next
      fix j assume "j < length (pre @ [t])"
      then consider "j < length pre" | "j = length pre" by (auto simp: less_Suc_eq)
      then show "?ov ((pre @ [t]) ! j) \<le> ?ov ((pre @ [t]) ! length pre)"
      proof cases
        case 1
        then have "?ov (pre ! j) \<le> ?ov (pre ! i)" using Cons.prems by (simp add: firstMax_def)
        with True 1 show ?thesis by (simp add: nth_append)
      next
        case 2
        then show ?thesis by simp
      qed
    next
      fix j assume j: "j < length pre"
      then have "?ov (pre ! j) \<le> ?ov (pre ! i)" using Cons.prems by (simp add: firstMax_def)
      with True j show "?ov ((pre @ [t]) ! j) < ?ov ((pre @ [t]) ! length pre)"
        by (simp add: nth_append)
    qed
    from Cons.IH [OF fm] obtain k where k: "firstMax ?ov ((pre @ [t]) @ ts) k"
      "bestTrackLoop lib ac sq aq ts (scored lib ac sq aq ((pre @ [t]) ! length pre)) =
         scored lib ac sq aq (((pre @ [t]) @ ts) ! k)" by blast
    have "bestTrackLoop lib ac sq aq (t # ts) (scored lib ac sq aq (pre ! i)) =
        bestTrackLoop lib ac sq aq ts (scored lib ac sq aq t)"
      using True by (simp add: scored_def trackOverall_def weighted_def Let_def)
    with k show ?thesis by auto
  next
    case False
    have i: "i < length pre" using Cons.prems by (simp add: firstMax_def)
    have fm: "firstMax ?ov (pre @ [t]) i"
      unfolding firstMax_def
    proof (intro conjI allI impI)
      show "i < length (pre @ [t])" using i by simp
    next
      fix j assume "j < length (pre @ [t])"
      then consider "j < length pre" | "j = length pre" by (auto simp: less_Suc_eq)
      then show "?ov ((pre @ [t]) ! j) \<le> ?ov ((pre @ [t]) ! i)"
      proof cases
        case 1
        then have "?ov (pre ! j) \<le> ?ov (pre ! i)" using Cons.prems by (simp add: firstMax_def)
        with 1 i show ?thesis by (simp add: nth_append)
      next
        case 2
        with False i show ?thesis by (simp add: nth_append)
      qed
    next
      fix j assume j: "j < i"
      then have "?ov (pre ! j) < ?ov (pre ! i)" using Cons.prems by (simp add: firstMax_def)
      with j i show "?ov ((pre @ [t]) ! j) < ?ov ((pre @ [t]) ! i)"
        by (simp add: nth_append)
    qed
    from Cons.IH [OF fm] obtain k where k: "firstMax ?ov ((pre @ [t]) @ ts) k"
      "bestTrackLoop lib ac sq aq ts (scored lib ac sq aq ((pre @ [t]) ! i)) =
         scored lib ac sq aq (((pre @ [t]) @ ts) ! k)" by blast
    have "bestTrackLoop lib ac sq aq (t # ts) (scored lib ac sq aq (pre ! i)) =
        bestTrackLoop lib ac sq aq ts (scored lib ac sq aq (pre ! i))"
      using False by (simp add: scored_def trackOverall_def weighted_def Let_def)
    with k i show ?thesis by (auto simp: nth_append)
  qed
qed

lemma bestTrackLoop_from_first:
  "\<exists>k. firstMax (trackOverall lib ac sq aq) (t0 # rest) k \<and>
       bestTrackLoop lib ac sq aq rest (scored lib ac sq aq t0) =
         scored lib ac sq aq ((t0 # rest) ! k)"
proof -
  have "firstMax (trackOverall lib ac sq aq) [t0] 0" by (simp add: firstMax_def)
  from bestTrackLoop_firstMax [OF this, of rest] show ?thesis by simp
qed

lemma lit_one_times: "fmul (lit 1) (lit (7/20)) = lit (7/20)"
  by code_simp

lemma FindBest_nonblank:
  assumes aq: "TrimSpace artistQuery \<noteq> []" and sq: "TrimSpace songQuery \<noteq> []"
    and sa: "doSearchArtist (spotify f) artistQuery w = (Inr artist, w1)"
    and gt: "doGetArtistTopTracks (spotify f) (Artist_ID artist) w1 = (Inr tracks, w2)"
    and ne: "tracks \<noteq> []"
  shows "\<exists>k. firstMax (trackOverall lib (calculateMatchConfidence lib artistQuery (Artist_Name artist))
                  songQuery albumQuery) tracks k \<and>
    FindBestSongMatchWithAlbum lib f artistQuery songQuery albumQuery w =
      (Inr \<lparr>Match_Artist = artist, Match_Track = tracks ! k,
            ArtistQuery = artistQuery, SongQuery = songQuery, AlbumQuery = albumQuery,
            ArtistConfidence = calculateMatchConfidence lib artistQuery (Artist_Name artist),
            SongConfidence = calculateMatchConfidence lib songQuery (Track_Name (tracks ! k)),
            AlbumConfidence = calculateAlbumConfidence lib albumQuery (Some (tracks ! k)),
            OverallConfidence =
              trackOverall lib (calculateMatchConfidence lib artistQuery (Artist_Name artist))
                songQuery albumQuery (tracks ! k)\<rparr>, w2)"
proof -
  let ?ac = "calculateMatchConfidence lib artistQuery (Artist_Name artist)"
  from ne obtain t0 rest where tr: "tracks = t0 # rest" by (cases tracks) auto
  obtain k where k: "firstMax (trackOverall lib ?ac songQuery albumQuery) (t0 # rest) k"
    "bestTrackLoop lib ?ac songQuery albumQuery rest (scored lib ?ac songQuery albumQuery t0) =
       scored lib ?ac songQuery albumQuery ((t0 # rest) ! k)"
    using bestTrackLoop_from_first by blast
  have "bestTrackLoop lib ?ac songQuery albumQuery rest
          (t0, calculateMatchConfidence lib songQuery (Track_Name t0),
           calculateAlbumConfidence lib albumQuery (Some t0),
           fadd (fadd (fmul ?ac (lit (5/10)))
                      (fmul (calculateMatchConfidence lib songQuery (Track_Name t0)) (lit (35/100))))
                (fmul (calculateAlbumConfidence lib albumQuery (Some t0)) (lit (15/100)))) =
        scored lib ?ac songQuery albumQuery ((t0 # rest) ! k)"
    using k(2) by (simp add: scored_def trackOverall_def weighted_def)
  then have "FindBestSongMatchWithAlbum lib f artistQuery songQuery albumQuery w =
      (Inr \<lparr>Match_Artist = artist, Match_Track = tracks ! k,
            ArtistQuery = artistQuery, SongQuery = songQuery, AlbumQuery = albumQuery,
            ArtistConfidence = ?ac,
            SongConfidence = calculateMatchConfidence lib songQuery (Track_Name (tracks ! k)),
            AlbumConfidence = calculateAlbumConfidence lib albumQuery (Some (tracks ! k)),
            OverallConfidence = trackOverall lib ?ac songQuery albumQuery (tracks ! k)\<rparr>, w2)"
    using aq sq sa gt tr
    by (simp add: FindBestSongMatchWithAlbum_def Let_def scored_def)
  with k(1) tr show ?thesis by blast
qed

lemma FindBest_blank:
  assumes aq: "TrimSpace artistQuery \<noteq> []" and sq: "TrimSpace songQuery = []"
    and sa: "doSearchArtist (spotify f) artistQuery w = (Inr artist, w1)"
    and gt: "doGetArtistTopTracks (spotify f) (Artist_ID artist) w1 = (Inr (t0 # rest), w2)"
  shows "FindBestSongMatchWithAlbum lib f artistQuery songQuery albumQuery w =
      (Inr \<lparr>Match_Artist = artist, Match_Track = t0,
            ArtistQuery = artistQuery, SongQuery = [], AlbumQuery = albumQuery,
            ArtistConfidence = calculateMatchConfidence lib artistQuery (Artist_Name artist),
            SongConfidence = lit 1,
            AlbumConfidence = calculateAlbumConfidence lib albumQuery (Some t0),
            OverallConfidence =
              weighted (calculateMatchConfidence lib artistQuery (Artist_Name artist)) (lit 1)
                (calculateAlbumConfidence lib albumQuery (Some t0))\<rparr>, w2)"
  using assms
  by (simp add: FindBestSongMatchWithAlbum_def Let_def weighted_def lit_one_times)

lemma FindBest_success:
  assumes "FindBestSongMatchWithAlbum lib f artistQuery songQuery albumQuery w = (Inr m, w')"
  shows "\<exists>artist tracks w1.
           TrimSpace artistQuery \<noteq> [] \<and>
           doSearchArtist (spotify f) artistQuery w = (Inr artist, w1) \<and>
           doGetArtistTopTracks (spotify f) (Artist_ID artist) w1 = (Inr tracks, w') \<and>
           tracks \<noteq> []"
  using assms
  by (auto simp: FindBestSongMatchWithAlbum_def Let_def
      split: if_splits prod.splits sum.splits list.splits)

lemma FindBest_weighted:
  assumes "FindBestSongMatchWithAlbum lib f artistQuery songQuery albumQuery w = (Inr m, w')"
  shows "OverallConfidence m =
           weighted (ArtistConfidence m) (SongConfidence m) (AlbumConfidence m)"
proof -
  from FindBest_success [OF assms] obtain artist tracks w1 where
    a: "TrimSpace artistQuery \<noteq> []"
    and sa: "doSearchArtist (spotify f) artistQuery w = (Inr artist, w1)"
    and gt: "doGetArtistTopTracks (spotify f) (Artist_ID artist) w1 = (Inr tracks, w')"
    and ne: "tracks \<noteq> []" by blast
  show ?thesis
  proof (cases "TrimSpace songQuery = []")
    case True
    from ne obtain t0 rest where "tracks = t0 # rest" by (cases tracks) auto
    with FindBest_blank [OF a True sa, of t0 rest w' lib albumQuery] gt assms
    show ?thesis by auto
  next
    case False
    from FindBest_nonblank [OF a False sa gt ne, of lib albumQuery] assms
    show ?thesis by (auto simp: trackOverall_def)
  qed
qed

section \<open>Properties of the feed client\<close>

lemma retryLoop_unrolled:
  "retryLoop env 1 None [] =
     (if \<not> transient (Do env 1) then (Some (Do env 1), [HTTPAttempt 1])
      else if \<not> transient (Do env 2)
      then (Some (Do env 2), [HTTPAttempt 1, Sleep 2, HTTPAttempt 2])
      else (Some (Do env 3),
            [HTTPAttempt 1, Sleep 2, HTTPAttempt 2, Sleep 4, HTTPAttempt 3]))"
proof -
  have 4: "retryLoop env 4 latest events = (latest, events)" for latest events
    by (subst retryLoop.simps) (simp add: maxRetries_def)
  have 3: "retryLoop env 3 latest events = (Some (Do env 3), events @ [HTTPAttempt 3])"
    for latest events
    by (subst retryLoop.simps) (simp add: maxRetries_def 4 Let_def split: sum.splits)
  have 2: "retryLoop env 2 latest events =
      (if \<not> transient (Do env 2) then (Some (Do env 2), events @ [HTTPAttempt 2])
       else (Some (Do env 3), events @ [HTTPAttempt 2, Sleep 4, HTTPAttempt 3]))"
    for latest events
    by (subst retryLoop.simps)
       (simp add: maxRetries_def 3 Let_def transient_def split: sum.splits)
  have 1: "retryLoop env 1 None [] =
      (if \<not> transient (Do env 1) then (Some (Do env 1), [HTTPAttempt 1])
       else retryLoop env 2 (Some (Do env 1)) [HTTPAttempt 1, Sleep 2])"
    by (subst retryLoop.simps)
       (simp add: maxRetries_def Let_def transient_def numeral_2_eq_2 [symmetric]
          split: sum.splits)
  show ?thesis unfolding 1 2 by simp
qed

lemma mapTrackToSong_fields:
  assumes "mapTrackToSong env artistName trackName collectionName startTime rawJSON = Inr s"
  shows "Song_Artist s = TrimSpace artistName \<and> Song_Title s = TrimSpace trackName \<and>
         Song_Album s = TrimSpace collectionName \<and> RawText s = rawJSON"
  using assms by (auto simp: mapTrackToSong_def Let_def split: if_splits sum.splits)

lemma parseTrackObject_Inr:
  assumes "parseTrackObject env rawTrack = Inr s"
  shows "\<exists>artistName trackName collectionName startTime.
           artistName \<noteq> [] \<and> trackName \<noteq> [] \<and>
           mapTrackToSong env artistName trackName collectionName startTime rawTrack = Inr s"
proof -
  let ?c = "(case UnmarshalComplete env rawTrack of
              Inr completeTrack \<Rightarrow>
                if CompleteTrack_ArtistName completeTrack \<noteq> [] \<and>
                   CompleteTrack_TrackName completeTrack \<noteq> []
                then Some (mapTrackToSong env (CompleteTrack_ArtistName completeTrack)
                             (CompleteTrack_TrackName completeTrack)
                             (CompleteTrack_CollectionName completeTrack)
                             (CompleteTrack_StartTime completeTrack) rawTrack)
                else None
            | Inl err \<Rightarrow> None)"
  let ?m = "(case UnmarshalMinimal env rawTrack of
                  Inr minimalTrack \<Rightarrow>
                    if MinimalTrack_ArtistName minimalTrack \<noteq> [] \<and>
                       MinimalTrack_TrackName minimalTrack \<noteq> []
                    then Some (mapTrackToSong env (MinimalTrack_ArtistName minimalTrack)
                                 (MinimalTrack_TrackName minimalTrack)
                                 (MinimalTrack_CollectionName minimalTrack)
                                 (MinimalTrack_StartTime minimalTrack) rawTrack)
                    else None
                | Inl err \<Rightarrow> None)"
  show ?thesis
  proof (cases ?c)
    case (Some r)
    then have "parseTrackObject env rawTrack = r" by (simp add: parseTrackObject_def)
    with Some assms show ?thesis by (auto split: sum.splits if_splits)
  next
    case None
    note c = None
    show ?thesis
    proof (cases ?m)
      case (Some r)
      then have "parseTrackObject env rawTrack = r" using c by (simp add: parseTrackObject_def)
      with Some assms show ?thesis by (auto split: sum.splits if_splits)
    next
      case None
      then have "parseTrackObject env rawTrack =
         (case UnmarshalMap env rawTrack of
                Inl err \<Rightarrow> Inl (ErrUnmarshalTrack err)
              | Inr rawMap \<Rightarrow>
                 (let artistName = stringField rawMap ''artistName'';
                      trackName = stringField rawMap ''trackName'';
                      collectionName = stringField rawMap ''collectionName'';
                      startTime = stringField rawMap ''_start_time''
                  in if artistName = [] \<or> trackName = []
                     then Inl (ErrMissingFields artistName trackName)
                     else mapTrackToSong env artistName trackName collectionName startTime
                            rawTrack))"
        using c by (simp add: parseTrackObject_def)
      with assms show ?thesis by (auto simp: Let_def split: sum.splits if_splits)
    qed
  qed
qed

lemma parseTracks_songs:
  "Songs (parseTracks env raws collection) =
     Songs collection @
     concat (map (\<lambda>rawTrack. case parseTrackObject env rawTrack of
                                 Inl err \<Rightarrow> []
                               | Inr song \<Rightarrow> if IsValid song then [song] else []) raws)"
  by (induction raws arbitrary: collection) (auto simp: AddSong_def split: sum.splits)

lemma parseResponse_songs:
  assumes "parseResponse env apiResponse = Inr collection" and "s \<in> set (Songs collection)"
  shows "\<exists>rawTrack \<in> set apiResponse. parseTrackObject env rawTrack = Inr s \<and> IsValid s"
proof -
  from assms(1) have "Songs collection =
      concat (map (\<lambda>rawTrack. case parseTrackObject env rawTrack of
                                 Inl err \<Rightarrow> []
                               | Inr song \<Rightarrow> if IsValid song then [song] else []) apiResponse)"
    by (auto simp: parseResponse_def parseTracks_songs)
  with assms(2) show ?thesis by (auto split: sum.splits if_splits)
qed

lemma FetchPlaylist_Inr:
  assumes "fst (FetchPlaylist env date) = Inr collection"
  shows "\<exists>apiResponse. parseResponse env apiResponse = Inr collection"
  using assms
  by (auto simp: FetchPlaylist_def split: option.splits prod.splits sum.splits if_splits)

lemma example_parse:
  "parseResponse (exampleEnv outcomes) [''e1'', ''e2'', ''e3''] =
     Inr \<lparr>Songs = [\<lparr>Song_Artist = ''Miles Davis'', Song_Title = ''So What'',
                    Song_Album = ''Kind of Blue'', PlayedAt = 1000, RawText = ''e1''\<rparr>],
          LastUpdated = 1000, Source = ''kmhd_api''\<rparr>"
proof -
  have t: "TrimSpace '' Miles Davis'' = ''Miles Davis''" "TrimSpace ''So What'' = ''So What''"
    "TrimSpace ''Kind of Blue '' = ''Kind of Blue''" "TrimSpace ''   '' = []"
    "TrimSpace ''Blue in Green'' = ''Blue in Green''" "TrimSpace [] = []"
    by code_simp+
  show ?thesis
    by (simp add: parseResponse_def parseTrackObject_def mapTrackToSong_def exampleEnv_def
          mkComplete_def stringField_def IsValid_def AddSong_def Let_def t)
qed

section \<open>Properties of the sync command\<close>

lemma firstOfEachKey_distinct:
  "distinct (map SeenKey xs) \<Longrightarrow> firstOfEachKey xs = xs"
proof (induction xs)
  case Nil
  then show ?case by simp
next
  case (Cons s rest)
  from Cons.prems have "SeenKey s \<notin> SeenKey ` set rest" by simp
  then have "\<forall>t \<in> set rest. SeenKey t \<noteq> SeenKey s" by (metis imageI)
  then have "filter (\<lambda>t. SeenKey t \<noteq> SeenKey s) rest = rest"
    by (simp add: filter_id_conv)
  with Cons show ?case by simp
qed

lemma filterLoop_spec:
  "\<exists>seenSongs' globalSeenSongs'.
     filterLoop now i songs (newSongs, seenSongs, globalSeenSongs) =
       (newSongs @ firstOfEachKey
          (filter (\<lambda>s. IsValid s \<and> SeenKey s \<notin> seenKeys seenSongs globalSeenSongs) songs),
        seenSongs', globalSeenSongs') \<and>
     {k. seenSongs' k = Some True} =
       {k. seenSongs k = Some True} \<union>
       SeenKey ` {s \<in> set songs. IsValid s \<and> SeenKey s \<notin> seenKeys seenSongs globalSeenSongs} \<and>
     dom globalSeenSongs' =
       dom globalSeenSongs \<union>
       SeenKey ` {s \<in> set songs. IsValid s \<and> SeenKey s \<notin> seenKeys seenSongs globalSeenSongs}"
proof (induction songs arbitrary: i newSongs seenSongs globalSeenSongs)
  case Nil
  then show ?case by simp
next
  case (Cons song rest)
  let ?K = "seenKeys seenSongs globalSeenSongs"
  show ?case
  proof (cases "IsValid song \<and> SeenKey song \<notin> ?K")
    case False
    then have step: "filterLoop now i (song # rest) (newSongs, seenSongs, globalSeenSongs) =
        filterLoop now (i + 1) rest (newSongs, seenSongs, globalSeenSongs)"
      by (auto simp: Let_def SeenKey_def seenKeys_def dom_def)
    from Cons.IH [of "i + 1" newSongs seenSongs globalSeenSongs] False
    show ?thesis unfolding step by auto
  next
    case True
    let ?k = "SeenKey song"
    let ?c = "seenSongs(?k \<mapsto> True)"
    let ?g = "globalSeenSongs(?k \<mapsto> now i)"
    from True have step: "filterLoop now i (song # rest) (newSongs, seenSongs, globalSeenSongs) =
        filterLoop now (i + 1) rest (newSongs @ [song], ?c, ?g)"
      by (auto simp: Let_def SeenKey_def seenKeys_def dom_def)
    have K: "seenKeys ?c ?g = insert ?k ?K"
      by (auto simp: seenKeys_def)
    have fl: "filter (\<lambda>s. IsValid s \<and> SeenKey s \<notin> seenKeys ?c ?g) rest =
        filter (\<lambda>t. SeenKey t \<noteq> ?k) (filter (\<lambda>s. IsValid s \<and> SeenKey s \<notin> ?K) rest)"
      unfolding K by (induction rest) auto
    from Cons.IH [of "i + 1" "newSongs @ [song]" ?c ?g]
    obtain c' g' where r: "filterLoop now (i + 1) rest (newSongs @ [song], ?c, ?g) =
        ((newSongs @ [song]) @ firstOfEachKey
          (filter (\<lambda>s. IsValid s \<and> SeenKey s \<notin> seenKeys ?c ?g) rest), c', g')"
      and c': "{k. c' k = Some True} = {k. ?c k = Some True} \<union>
        SeenKey ` {s \<in> set rest. IsValid s \<and> SeenKey s \<notin> seenKeys ?c ?g}"
      and g': "dom g' = dom ?g \<union>
        SeenKey ` {s \<in> set rest. IsValid s \<and> SeenKey s \<notin> seenKeys ?c ?g}"
      by blast
    have 1: "filterLoop now i (song # rest) (newSongs, seenSongs, globalSeenSongs) =
        (newSongs @ firstOfEachKey
          (filter (\<lambda>s. IsValid s \<and> SeenKey s \<notin> ?K) (song # rest)), c', g')"
      unfolding step r using True by (simp add: fl)
    have 2: "{k. c' k = Some True} = {k. seenSongs k = Some True} \<union>
        SeenKey ` {s \<in> set (song # rest). IsValid s \<and> SeenKey s \<notin> ?K}"
      unfolding c' K using True by auto
    have 3: "dom g' = dom globalSeenSongs \<union>
        SeenKey ` {s \<in> set (song # rest). IsValid s \<and> SeenKey s \<notin> ?K}"
      unfolding g' K using True by auto
    from 1 2 3 show ?thesis by blast
  qed
qed

lemma syncLoop_step:
  "\<exists>synced1 skipped1 ext w1.
     syncLoop lib f svc pl (song # rest) (synced, skipped, out, w) =
       syncLoop lib f svc pl rest (synced1, skipped1, out @ FoundOnKMHD (Song_String song) # ext, w1) \<and>
     filter isFound ext = [] \<and>
     synced1 = synced + length (filter isSynced ext) \<and>
     skipped1 = skipped + length (filter isSkipped ext) \<and>
     synced1 + skipped1 = synced + skipped + 1"
proof -
  obtain res w1 where Pair: "FindBestSongMatchWithAlbum lib f (Song_Artist song) (Song_Title song)
      (Song_Album song) w = (res, w1)"
    by (cases "FindBestSongMatchWithAlbum lib f (Song_Artist song) (Song_Title song)
      (Song_Album song) w") auto
  show ?thesis
  proof (cases res)
    case (Inl err)
    have "syncLoop lib f svc pl (song # rest) (synced, skipped, out, w) =
       syncLoop lib f svc pl rest
         (synced, skipped + 1, out @ FoundOnKMHD (Song_String song) # [CouldNotFind err], w1)"
      using Pair Inl by (simp add: Let_def)
    then show ?thesis by (intro exI conjI) (assumption, simp_all)
  next
    case (Inr songMatch)
    show ?thesis
    proof (cases "OverallConfidence songMatch < lit (5/10)")
      case True
      have "syncLoop lib f svc pl (song # rest) (synced, skipped, out, w) =
         syncLoop lib f svc pl rest
           (synced, skipped + 1,
            out @ FoundOnKMHD (Song_String song) # [LowConfidenceMatch (OverallConfidence songMatch)], w1)"
        using Pair Inr True by (simp add: Let_def)
      then show ?thesis by (intro exI conjI) (assumption, simp_all)
    next
      case False
      let ?fm = "FoundMatch (Artist_Name (Match_Artist songMatch))
                                (Track_Name (Match_Track songMatch))
                                (ArtistConfidence songMatch) (SongConfidence songMatch)
                                (OverallConfidence songMatch)"
      obtain existing w2 where ck: "doCheckTracksInPlaylist svc (Playlist_ID pl)
          [Track_ID (Match_Track songMatch)] w1 = (existing, w2)"
        by (cases "doCheckTracksInPlaylist svc (Playlist_ID pl)
          [Track_ID (Match_Track songMatch)] w1") auto
      show ?thesis
      proof (cases "case existing of Inl err \<Rightarrow> False
                     | Inr existing \<Rightarrow> length existing > 0 \<and> existing ! 0")
        case True
        have "syncLoop lib f svc pl (song # rest) (synced, skipped, out, w) =
           syncLoop lib f svc pl rest
             (synced, skipped + 1,
              out @ FoundOnKMHD (Song_String song) #
                [?fm, AlreadyInPlaylist (Track_Name (Match_Track songMatch))], w2)"
          using Pair Inr \<open>\<not> OverallConfidence songMatch < lit (5/10)\<close> ck True
          by (simp add: Let_def)
        then show ?thesis by (intro exI conjI) (assumption, simp_all)
      next
        case nodup: False
        obtain addErr w3 where ad: "doAddTracksToPlaylist svc (Playlist_ID pl)
            [Track_ID (Match_Track songMatch)] w2 = (addErr, w3)"
          by (cases "doAddTracksToPlaylist svc (Playlist_ID pl)
            [Track_ID (Match_Track songMatch)] w2") auto
        show ?thesis
        proof (cases addErr)
          case None
          have "syncLoop lib f svc pl (song # rest) (synced, skipped, out, w) =
             syncLoop lib f svc pl rest
               (synced + 1, skipped,
                out @ FoundOnKMHD (Song_String song) #
                  [?fm, AddedToPlaylist (Track_Name (Match_Track songMatch))], w3)"
            using Pair Inr \<open>\<not> OverallConfidence songMatch < lit (5/10)\<close> ck nodup ad None
            by (simp add: Let_def)
          then show ?thesis by (intro exI conjI) (assumption, simp_all)
        next
          case (Some err)
          have "syncLoop lib f svc pl (song # rest) (synced, skipped, out, w) =
             syncLoop lib f svc pl rest
               (synced, skipped + 1,
                out @ FoundOnKMHD (Song_String song) # [?fm, FailedToAdd err], w3)"
            using Pair Inr \<open>\<not> OverallConfidence songMatch < lit (5/10)\<close> ck nodup ad Some
            by (simp add: Let_def)
          then show ?thesis by (intro exI conjI) (assumption, simp_all)
        qed
      qed
    qed
  qed
qed

lemma syncLoop_tally:
  "\<exists>synced' skipped' ext w'.
     syncLoop lib f svc pl songs (synced, skipped, out, w) = (synced', skipped', out @ ext, w') \<and>
     filter isFound ext = map (\<lambda>s. FoundOnKMHD (Song_String s)) songs \<and>
     synced' = synced + length (filter isSynced ext) \<and>
     skipped' = skipped + length (filter isSkipped ext) \<and>
     synced' + skipped' = synced + skipped + length songs"
proof (induction songs arbitrary: synced skipped out w)
  case Nil
  then show ?case by simp
next
  case (Cons song rest)
  from syncLoop_step [of lib f svc pl song rest synced skipped out w]
  obtain synced1 skipped1 ext1 w1 where
    s: "syncLoop lib f svc pl (song # rest) (synced, skipped, out, w) =
       syncLoop lib f svc pl rest (synced1, skipped1, out @ FoundOnKMHD (Song_String song) # ext1, w1)"
    and f1: "filter isFound ext1 = []"
    and a1: "synced1 = synced + length (filter isSynced ext1)"
    and k1: "skipped1 = skipped + length (filter isSkipped ext1)"
    and t1: "synced1 + skipped1 = synced + skipped + 1"
    by blast
  from Cons.IH [of synced1 skipped1 "out @ FoundOnKMHD (Song_String song) # ext1" w1]
  obtain synced' skipped' ext w' where
    r: "syncLoop lib f svc pl rest (synced1, skipped1, out @ FoundOnKMHD (Song_String song) # ext1, w1) =
       (synced', skipped', (out @ FoundOnKMHD (Song_String song) # ext1) @ ext, w')"
    and f2: "filter isFound ext = map (\<lambda>s. FoundOnKMHD (Song_String s)) rest"
    and a2: "synced' = synced1 + length (filter isSynced ext)"
    and k2: "skipped' = skipped1 + length (filter isSkipped ext)"
    and t2: "synced' + skipped' = synced1 + skipped1 + length rest"
    by blast
  let ?ext = "FoundOnKMHD (Song_String song) # ext1 @ ext"
  have "syncLoop lib f svc pl (song # rest) (synced, skipped, out, w) =
      (synced', skipped', out @ ?ext, w')"
    unfolding s r by simp
  moreover have "filter isFound ?ext = map (\<lambda>s. FoundOnKMHD (Song_String s)) (song # rest)"
    using f1 f2 by simp
  moreover have "synced' = synced + length (filter isSynced ?ext)" using a1 a2 by simp
  moreover have "skipped' = skipped + length (filter isSkipped ?ext)" using k1 k2 by simp
  moreover have "synced' + skipped' = synced + skipped + length (song # rest)"
    using t1 t2 by simp
  ultimately show ?case by blast
qed

lemma syncLoop_append:
  "syncLoop lib f svc pl (xs @ ys) state = syncLoop lib f svc pl ys (syncLoop lib f svc pl xs state)"
proof (induction xs arbitrary: state)
  case Nil
  then show ?case by simp
next
  case (Cons song rest)
  obtain synced skipped out w where st: "state = (synced, skipped, out, w)"
    by (cases state) auto
  from syncLoop_step [of lib f svc pl song "rest @ ys" synced skipped out w]
    syncLoop_step [of lib f svc pl song rest synced skipped out w]
  show ?case unfolding st
    by (auto simp: Let_def Cons.IH split: prod.splits sum.splits option.splits if_splits)
qed

lemma alreadyThere_iff:
  "alreadyThere existing =
     (case existing of Inl err \<Rightarrow> False | Inr bs \<Rightarrow> length bs > 0 \<and> bs ! 0)"
  by (cases existing rule: alreadyThere.cases) simp_all

section \<open>The match confidence\<close>

text \<open>
  Claim C5.  With both strings trimmed and lower-cased, \<open>calculateMatchConfidence\<close> returns
  1.0 when they are equal; otherwise \<open>0.8 + 0.2 * (len(query) / len(candidate))\<close> when the
  candidate contains the query; otherwise \<open>0.7 + 0.2 * (len(candidate) / len(query))\<close> when
  the query contains the candidate; otherwise the score of the first fuzzy match divided by
  twice the query length, times 0.7, clamped into the interval from 0.1 to 0.7, and 0.1
  when the scorer returns no match.  All arithmetic is float64 arithmetic.
\<close>

theorem calculateMatchConfidence_cases:
  "(normalized lib query = normalized lib itemName \<longrightarrow>
      calculateMatchConfidence lib query itemName = 1) \<and>
   (normalized lib query \<noteq> normalized lib itemName \<and>
    Contains (normalized lib itemName) (normalized lib query) \<longrightarrow>
      calculateMatchConfidence lib query itemName =
        fadd (lit (8/10))
          (fmul (lit (2/10)) (fdiv (len64 (normalized lib query)) (len64 (normalized lib itemName))))) \<and>
   (normalized lib query \<noteq> normalized lib itemName \<and>
    \<not> Contains (normalized lib itemName) (normalized lib query) \<and>
    Contains (normalized lib query) (normalized lib itemName) \<longrightarrow>
      calculateMatchConfidence lib query itemName =
        fadd (lit (7/10))
          (fmul (lit (2/10)) (fdiv (len64 (normalized lib itemName)) (len64 (normalized lib query))))) \<and>
   (normalized lib query \<noteq> normalized lib itemName \<and>
    \<not> Contains (normalized lib itemName) (normalized lib query) \<and>
    \<not> Contains (normalized lib query) (normalized lib itemName) \<longrightarrow>
      lit (1/10) \<le> calculateMatchConfidence lib query itemName \<and>
      calculateMatchConfidence lib query itemName \<le> lit (7/10) \<and>
      (case fuzzy_Find lib (normalized lib query) [normalized lib itemName] of
         [] \<Rightarrow> calculateMatchConfidence lib query itemName = lit (1/10)
       | m # ms \<Rightarrow>
           calculateMatchConfidence lib query itemName =
             max (lit (1/10)) (min (lit (7/10))
               (fmul (fdiv (float64_of_int (Score m))
                           (float64_of_int (2 * int (length (normalized lib query)))))
                     (lit (7/10))))))"
  using lit_tenth_le
  by (auto simp: calculateMatchConfidence_def normalized_def len64_def Let_def lit_1
        fmul_def mult.commute max_def min_def split: list.splits)

theorem calculateMatchConfidence_cases_witness:
  "calculateMatchConfidence exampleLib '' test song '' ''Test Song'' = 1 \<and>
   calculateMatchConfidence exampleLib ''Test'' ''Test Song'' =
     8006399337547549 / 9007199254740992 \<and>
   calculateMatchConfidence exampleLib ''Test Song Extended'' ''Test Song'' =
     7205759403792793 / 9007199254740992 \<and>
   calculateMatchConfidence exampleLib ''Tst Sng'' ''Test Song'' =
     8106479329266893 / 18014398509481984 \<and>
   calculateMatchConfidence exampleLib ''xyz'' ''Test Song'' =
     3602879701896397 / 36028797018963968"
proof -
  have h1: "normalized exampleLib '' test song '' = normalized exampleLib ''Test Song''"
    by code_simp
  have c1: "calculateMatchConfidence exampleLib '' test song '' ''Test Song'' = 1"
    using calculateMatchConfidence_cases [of exampleLib "'' test song ''" "''Test Song''"] h1
    by blast
  have h2: "normalized exampleLib ''Test'' \<noteq> normalized exampleLib ''Test Song'' \<and>
      Contains (normalized exampleLib ''Test Song'') (normalized exampleLib ''Test'')"
    by code_simp
  have v2: "fadd (lit (8/10)) (fmul (lit (2/10))
      (fdiv (len64 (normalized exampleLib ''Test'')) (len64 (normalized exampleLib ''Test Song'')))) =
      8006399337547549 / 9007199254740992"
    by code_simp
  have c2: "calculateMatchConfidence exampleLib ''Test'' ''Test Song'' =
      8006399337547549 / 9007199254740992"
    using calculateMatchConfidence_cases [of exampleLib "''Test''" "''Test Song''"] h2 v2
    by simp
  have h3: "normalized exampleLib ''Test Song Extended'' \<noteq> normalized exampleLib ''Test Song'' \<and>
      \<not> Contains (normalized exampleLib ''Test Song'') (normalized exampleLib ''Test Song Extended'') \<and>
      Contains (normalized exampleLib ''Test Song Extended'') (normalized exampleLib ''Test Song'')"
    by code_simp
  have v3: "fadd (lit (7/10)) (fmul (lit (2/10))
      (fdiv (len64 (normalized exampleLib ''Test Song''))
            (len64 (normalized exampleLib ''Test Song Extended'')))) =
      7205759403792793 / 9007199254740992"
    by code_simp
  have c3: "calculateMatchConfidence exampleLib ''Test Song Extended'' ''Test Song'' =
      7205759403792793 / 9007199254740992"
    using calculateMatchConfidence_cases [of exampleLib "''Test Song Extended''" "''Test Song''"]
      h3 v3
    by simp
  have h4: "normalized exampleLib ''Tst Sng'' \<noteq> normalized exampleLib ''Test Song'' \<and>
      \<not> Contains (normalized exampleLib ''Test Song'') (normalized exampleLib ''Tst Sng'') \<and>
      \<not> Contains (normalized exampleLib ''Tst Sng'') (normalized exampleLib ''Test Song'')"
    by code_simp
  have f4: "fuzzy_Find exampleLib (normalized exampleLib ''Tst Sng'')
        [normalized exampleLib ''Test Song''] =
      [\<lparr>Str = ''test song'', Index = 0, MatchedIndexes = [0, 2, 3, 5, 7, 8], Score = 9\<rparr>]"
    by code_simp
  have v4: "max (lit (1/10)) (min (lit (7/10))
      (fmul (fdiv (float64_of_int 9)
                  (float64_of_int (2 * int (length (normalized exampleLib ''Tst Sng'')))))
            (lit (7/10)))) = 8106479329266893 / 18014398509481984"
    by code_simp
  have c4: "calculateMatchConfidence exampleLib ''Tst Sng'' ''Test Song'' =
      8106479329266893 / 18014398509481984"
    using calculateMatchConfidence_cases [of exampleLib "''Tst Sng''" "''Test Song''"] h4 f4 v4
    by simp
  have h5: "normalized exampleLib ''xyz'' \<noteq> normalized exampleLib ''Test Song'' \<and>
      \<not> Contains (normalized exampleLib ''Test Song'') (normalized exampleLib ''xyz'') \<and>
      \<not> Contains (normalized exampleLib ''xyz'') (normalized exampleLib ''Test Song'')"
    by code_simp
  have f5: "fuzzy_Find exampleLib (normalized exampleLib ''xyz'')
        [normalized exampleLib ''Test Song''] = []"
    by code_simp
  have v5: "lit (1/10) = 3602879701896397 / 36028797018963968"
    by code_simp
  have c5: "calculateMatchConfidence exampleLib ''xyz'' ''Test Song'' =
      3602879701896397 / 36028797018963968"
    using calculateMatchConfidence_cases [of exampleLib "''xyz''" "''Test Song''"] h5 f5 v5
    by simp
  from c1 c2 c3 c4 c5 show ?thesis by blast
qed

section \<open>The album confidence\<close>

text \<open>
  Claim C8.  \<open>calculateAlbumConfidence\<close> returns exactly 0.5 when the album query is empty
  or white space only, when the track is absent, and when the track's album name is empty
  or white space only; in every other case it returns \<open>calculateMatchConfidence\<close> of the
  album query and the track's album name.
\<close>

theorem calculateAlbumConfidence_neutral:
  "calculateAlbumConfidence lib albumQuery track =
     (case track of
        None \<Rightarrow> 1/2
      | Some t \<Rightarrow>
          if whitespaceOnly albumQuery \<or> whitespaceOnly (Album_Name (Track_Album t)) then 1/2
          else calculateMatchConfidence lib albumQuery (Album_Name (Track_Album t)))"
  by (simp add: calculateAlbumConfidence_def TrimSpace_empty_iff lit_half split: option.splits)

theorem calculateAlbumConfidence_neutral_witness:
  "calculateAlbumConfidence exampleLib ''Z'' None = 1/2 \<and>
   calculateAlbumConfidence exampleLib ''  '' (Some (mkTrack ''t1'' ''Y'' ''Z'')) = 1/2 \<and>
   calculateAlbumConfidence exampleLib ''Z'' (Some (mkTrack ''t1'' ''Y'' '' '')) = 1/2 \<and>
   calculateAlbumConfidence exampleLib '' z '' (Some (mkTrack ''t1'' ''Y'' ''Z'')) = 1"
proof -
  have b: "whitespaceOnly ''  ''" "whitespaceOnly '' ''" "\<not> whitespaceOnly ''Z''"
    "\<not> whitespaceOnly '' z ''"
    unfolding TrimSpace_empty_iff [symmetric] by code_simp+
  have n: "Album_Name (Track_Album (mkTrack ''t1'' ''Y'' ''Z'')) = ''Z''"
    "Album_Name (Track_Album (mkTrack ''t1'' ''Y'' '' '')) = '' ''"
    by (simp_all add: mkTrack_def)
  have m: "calculateMatchConfidence exampleLib '' z '' ''Z'' = 1"
    by code_simp
  show ?thesis
    using calculateAlbumConfidence_neutral [of exampleLib "''Z''" None]
      calculateAlbumConfidence_neutral [of exampleLib "''  ''" "Some (mkTrack ''t1'' ''Y'' ''Z'')"]
      calculateAlbumConfidence_neutral [of exampleLib "''Z''" "Some (mkTrack ''t1'' ''Y'' '' '')"]
      calculateAlbumConfidence_neutral [of exampleLib "'' z ''" "Some (mkTrack ''t1'' ''Y'' ''Z'')"]
      b n m
    by simp
qed

section \<open>The weighting law\<close>

text \<open>
  Claim C1.  Every match returned by \<open>FindBestSongMatchWithAlbum\<close> carries as its overall
  confidence the float64 value of \<open>0.5 * artist + 0.35 * song + 0.15 * album\<close> computed from
  the confidences it returns; that value differs from the exact weighted sum by at most
  \<open>2\<^sup>-\<^sup>5\<^sup>1\<close> times the sum of the magnitudes of the three confidences.  For the
  confidences 0.9, 0.6 and 0.5 it is the float64 nearest to 0.735.
\<close>

theorem overallConfidence_weighting:
  "(FindBestSongMatchWithAlbum lib f artistQuery songQuery albumQuery w = (Inr m, w') \<longrightarrow>
      OverallConfidence m =
        weighted (ArtistConfidence m) (SongConfidence m) (AlbumConfidence m) \<and>
      \<bar>OverallConfidence m -
         (5/10 * ArtistConfidence m + 35/100 * SongConfidence m + 15/100 * AlbumConfidence m)\<bar>
        \<le> (\<bar>ArtistConfidence m\<bar> + \<bar>SongConfidence m\<bar> + \<bar>AlbumConfidence m\<bar>) / 2 ^ 51) \<and>
   weighted (lit (9/10)) (lit (6/10)) (lit (5/10)) = lit (735/1000) \<and>
   \<bar>lit (735/1000) - 735/1000\<bar> \<le> 1 / 2 ^ 53"
proof (intro conjI impI)
  assume r: "FindBestSongMatchWithAlbum lib f artistQuery songQuery albumQuery w = (Inr m, w')"
  then show e: "OverallConfidence m =
      weighted (ArtistConfidence m) (SongConfidence m) (AlbumConfidence m)"
    by (rule FindBest_weighted)
  show "\<bar>OverallConfidence m -
         (5/10 * ArtistConfidence m + 35/100 * SongConfidence m + 15/100 * AlbumConfidence m)\<bar>
        \<le> (\<bar>ArtistConfidence m\<bar> + \<bar>SongConfidence m\<bar> + \<bar>AlbumConfidence m\<bar>) / 2 ^ 51"
    using weighted_error [of "ArtistConfidence m" "SongConfidence m" "AlbumConfidence m"]
    unfolding e by simp
next
  show "weighted (lit (9/10)) (lit (6/10)) (lit (5/10)) = lit (735/1000)"
    by code_simp
next
  show "\<bar>lit (735/1000) - 735/1000\<bar> \<le> 1 / 2 ^ 53"
    using fl_error [of "735/1000"] by (simp add: lit_def)
qed

theorem overallConfidence_weighting_witness:
  "FindBestSongMatchWithAlbum exampleLib testSearcher ''test'' ''Song'' [] (0, []) =
     (Inr \<lparr>Match_Artist = mkArtist ''a1'' ''Test Artist'',
           Match_Track = mkTrack ''t1'' ''Test Song'' ''Test Album'',
           ArtistQuery = ''test'', SongQuery = ''Song'', AlbumQuery = [],
           ArtistConfidence = 3930414220250615 / 4503599627370496,
           SongConfidence = 8006399337547549 / 9007199254740992,
           AlbumConfidence = 1 / 2,
           OverallConfidence = 7408193932497831 / 9007199254740992\<rparr>,
      2, [SearchArtistCall ''test'', GetArtistTopTracksCall ''a1'']) \<and>
   7408193932497831 / 9007199254740992 =
     weighted (3930414220250615 / 4503599627370496) (8006399337547549 / 9007199254740992) (1 / 2) \<and>
   \<bar>7408193932497831 / 9007199254740992 -
      (5/10 * (3930414220250615 / 4503599627370496) +
       35/100 * (8006399337547549 / 9007199254740992) + 15/100 * (1 / 2 :: rat))\<bar>
     \<le> (\<bar>3930414220250615 / 4503599627370496\<bar> + \<bar>8006399337547549 / 9007199254740992\<bar> +
         \<bar>1 / 2 :: rat\<bar>) / 2 ^ 51"
proof -
  have ev: "FindBestSongMatchWithAlbum exampleLib testSearcher ''test'' ''Song'' [] (0, []) =
     (Inr \<lparr>Match_Artist = mkArtist ''a1'' ''Test Artist'',
           Match_Track = mkTrack ''t1'' ''Test Song'' ''Test Album'',
           ArtistQuery = ''test'', SongQuery = ''Song'', AlbumQuery = [],
           ArtistConfidence = 3930414220250615 / 4503599627370496,
           SongConfidence = 8006399337547549 / 9007199254740992,
           AlbumConfidence = 1 / 2,
           OverallConfidence = 7408193932497831 / 9007199254740992\<rparr>,
      2, [SearchArtistCall ''test'', GetArtistTopTracksCall ''a1''])"
    by code_simp
  from overallConfidence_weighting [of exampleLib testSearcher "''test''" "''Song''" "[]" "(0, [])"
      "\<lparr>Match_Artist = mkArtist ''a1'' ''Test Artist'',
        Match_Track = mkTrack ''t1'' ''Test Song'' ''Test Album'',
        ArtistQuery = ''test'', SongQuery = ''Song'', AlbumQuery = [],
        ArtistConfidence = 3930414220250615 / 4503599627370496,
        SongConfidence = 8006399337547549 / 9007199254740992,
        AlbumConfidence = 1 / 2,
        OverallConfidence = 7408193932497831 / 9007199254740992\<rparr>"
      "(2, [SearchArtistCall ''test'', GetArtistTopTracksCall ''a1''])"] ev
  show ?thesis by simp
qed

section \<open>Selection of the best track\<close>

text \<open>
  Claim C7, as stated, fails: the song query \<open>'' ''\<close> is not empty, the track list is not
  empty, and the matcher returns the first track although the second one has the larger
  overall confidence.
\<close>

theorem first_maximum_counterexample:
  "'' '' \<noteq> [] \<and>
   FindBestSongMatchWithAlbum exampleLib blankSongSearcher ''X'' '' '' ''Two'' (0, []) =
     (Inr \<lparr>Match_Artist = mkArtist ''a1'' ''X'', Match_Track = mkTrack ''t1'' ''A'' [],
           ArtistQuery = ''X'', SongQuery = [], AlbumQuery = ''Two'',
           ArtistConfidence = 1, SongConfidence = 1, AlbumConfidence = 1 / 2,
           OverallConfidence = 8331659310635417 / 9007199254740992\<rparr>,
      2, [SearchArtistCall ''X'', GetArtistTopTracksCall ''a1'']) \<and>
   trackOverall exampleLib 1 '' '' ''Two'' (mkTrack ''t1'' ''A'' []) =
     1925288840700887 / 2251799813685248 \<and>
   trackOverall exampleLib 1 '' '' ''Two'' (mkTrack ''t2'' ''B'' ''Two'') =
     8376695306909123 / 9007199254740992 \<and>
   (1925288840700887 / 2251799813685248 :: rat) < 8376695306909123 / 9007199254740992 \<and>
   (8331659310635417 / 9007199254740992 :: rat) < 8376695306909123 / 9007199254740992"
proof -
  have 1: "FindBestSongMatchWithAlbum exampleLib blankSongSearcher ''X'' '' '' ''Two'' (0, []) =
     (Inr \<lparr>Match_Artist = mkArtist ''a1'' ''X'', Match_Track = mkTrack ''t1'' ''A'' [],
           ArtistQuery = ''X'', SongQuery = [], AlbumQuery = ''Two'',
           ArtistConfidence = 1, SongConfidence = 1, AlbumConfidence = 1 / 2,
           OverallConfidence = 8331659310635417 / 9007199254740992\<rparr>,
      2, [SearchArtistCall ''X'', GetArtistTopTracksCall ''a1''])"
    by code_simp
  have 2: "trackOverall exampleLib 1 '' '' ''Two'' (mkTrack ''t1'' ''A'' []) =
     1925288840700887 / 2251799813685248"
    by code_simp
  have 3: "trackOverall exampleLib 1 '' '' ''Two'' (mkTrack ''t2'' ''B'' ''Two'') =
     8376695306909123 / 9007199254740992"
    by code_simp
  from 1 2 3 show ?thesis by simp
qed

text \<open>
  Claim C7, amended.  When the song query is not empty after trimming white space and the
  artist's track list is not empty, the matcher returns the track at the first position
  whose overall confidence is maximal over the whole list, with the confidences computed
  for that track.
\<close>

theorem first_maximum_selected:
  assumes "TrimSpace artistQuery \<noteq> []" and "TrimSpace songQuery \<noteq> []"
    and "doSearchArtist (spotify f) artistQuery w = (Inr artist, w1)"
    and "doGetArtistTopTracks (spotify f) (Artist_ID artist) w1 = (Inr tracks, w2)"
    and "tracks \<noteq> []"
  shows "\<exists>k. firstMax (trackOverall lib (calculateMatchConfidence lib artistQuery (Artist_Name artist))
                  songQuery albumQuery) tracks k \<and>
    FindBestSongMatchWithAlbum lib f artistQuery songQuery albumQuery w =
      (Inr \<lparr>Match_Artist = artist, Match_Track = tracks ! k,
            ArtistQuery = artistQuery, SongQuery = songQuery, AlbumQuery = albumQuery,
            ArtistConfidence = calculateMatchConfidence lib artistQuery (Artist_Name artist),
            SongConfidence = calculateMatchConfidence lib songQuery (Track_Name (tracks ! k)),
            AlbumConfidence = calculateAlbumConfidence lib albumQuery (Some (tracks ! k)),
            OverallConfidence =
              trackOverall lib (calculateMatchConfidence lib artistQuery (Artist_Name artist))
                songQuery albumQuery (tracks ! k)\<rparr>, w2)"
  using assms by (rule FindBest_nonblank)

theorem first_maximum_selected_witness:
  "firstMax (trackOverall exampleLib 1 ''Blue Train'' ''Two'')
     [mkTrack ''t1'' ''Blue'' ''One'', mkTrack ''t2'' ''Blue Train'' ''Two'',
      mkTrack ''t3'' ''Blue Train'' ''Two''] 1 \<and>
   FindBestSongMatchWithAlbum exampleLib blueSearcher ''X'' ''Blue Train'' ''Two'' (0, []) =
     (Inr \<lparr>Match_Artist = mkArtist ''a1'' ''X'', Match_Track = mkTrack ''t2'' ''Blue Train'' ''Two'',
           ArtistQuery = ''X'', SongQuery = ''Blue Train'', AlbumQuery = ''Two'',
           ArtistConfidence = 1, SongConfidence = 1, AlbumConfidence = 1,
           OverallConfidence = 1\<rparr>,
      2, [SearchArtistCall ''X'', GetArtistTopTracksCall ''a1''])"
proof -
  let ?tracks = "[mkTrack ''t1'' ''Blue'' ''One'', mkTrack ''t2'' ''Blue Train'' ''Two'',
      mkTrack ''t3'' ''Blue Train'' ''Two'']"
  have a: "TrimSpace ''X'' \<noteq> []" and s: "TrimSpace ''Blue Train'' \<noteq> []"
    by code_simp+
  have sa: "doSearchArtist (spotify blueSearcher) ''X'' (0, []) =
      (Inr (mkArtist ''a1'' ''X''), (1, [SearchArtistCall ''X'']))"
    by (simp add: doSearchArtist_def blueSearcher_def fixedService_def)
  have gt: "doGetArtistTopTracks (spotify blueSearcher) (Artist_ID (mkArtist ''a1'' ''X''))
      (1, [SearchArtistCall ''X'']) =
      (Inr ?tracks, (2, [SearchArtistCall ''X'', GetArtistTopTracksCall ''a1'']))"
    by (simp add: doGetArtistTopTracks_def blueSearcher_def fixedService_def mkArtist_def)
  have ac: "calculateMatchConfidence exampleLib ''X'' (Artist_Name (mkArtist ''a1'' ''X'')) = 1"
    by code_simp
  have ev: "FindBestSongMatchWithAlbum exampleLib blueSearcher ''X'' ''Blue Train'' ''Two'' (0, []) =
     (Inr \<lparr>Match_Artist = mkArtist ''a1'' ''X'', Match_Track = mkTrack ''t2'' ''Blue Train'' ''Two'',
           ArtistQuery = ''X'', SongQuery = ''Blue Train'', AlbumQuery = ''Two'',
           ArtistConfidence = 1, SongConfidence = 1, AlbumConfidence = 1,
           OverallConfidence = 1\<rparr>,
      2, [SearchArtistCall ''X'', GetArtistTopTracksCall ''a1''])"
    by code_simp
  from first_maximum_selected [OF a s sa gt, of exampleLib "''Two''"]
  obtain k where k: "firstMax (trackOverall exampleLib 1 ''Blue Train'' ''Two'') ?tracks k"
    and r: "FindBestSongMatchWithAlbum exampleLib blueSearcher ''X'' ''Blue Train'' ''Two'' (0, []) =
      (Inr \<lparr>Match_Artist = mkArtist ''a1'' ''X'', Match_Track = ?tracks ! k,
            ArtistQuery = ''X'', SongQuery = ''Blue Train'', AlbumQuery = ''Two'',
            ArtistConfidence = calculateMatchConfidence exampleLib ''X'' (Artist_Name (mkArtist ''a1'' ''X'')),
            SongConfidence = calculateMatchConfidence exampleLib ''Blue Train'' (Track_Name (?tracks ! k)),
            AlbumConfidence = calculateAlbumConfidence exampleLib ''Two'' (Some (?tracks ! k)),
            OverallConfidence =
              trackOverall exampleLib (calculateMatchConfidence exampleLib ''X'' (Artist_Name (mkArtist ''a1'' ''X'')))
                ''Blue Train'' ''Two'' (?tracks ! k)\<rparr>,
       (2, [SearchArtistCall ''X'', GetArtistTopTracksCall ''a1'']))"
    unfolding ac by auto
  from r ev have t: "?tracks ! k = mkTrack ''t2'' ''Blue Train'' ''Two''" by simp
  from k have "k < 3" by (simp add: firstMax_def)
  then consider "k = 0" | "k = 1" | "k = 2" by linarith
  then have "k = 1"
  proof cases
    case 1 with t show ?thesis by (simp add: mkTrack_def)
  next
    case 2 then show ?thesis .
  next
    case 3 with t show ?thesis by (simp add: mkTrack_def)
  qed
  with k ev show ?thesis by simp
qed

section \<open>The exact-match identity\<close>

text \<open>
  Claim C6, as stated, fails: the queries \<open>''X''\<close>, \<open>''Y''\<close> and the empty album query are
  equal to the matched artist's name, the selected track's title and its (empty) album
  name, and the overall confidence is the float64 value of 0.925, not 1.0.
\<close>

theorem exact_match_counterexample:
  "FindBestSongMatchWithAlbum exampleLib noAlbumSearcher ''X'' ''Y'' [] (0, []) =
     (Inr \<lparr>Match_Artist = mkArtist ''a1'' ''X'', Match_Track = mkTrack ''t1'' ''Y'' [],
           ArtistQuery = ''X'', SongQuery = ''Y'', AlbumQuery = [],
           ArtistConfidence = 1, SongConfidence = 1, AlbumConfidence = 1 / 2,
           OverallConfidence = 8331659310635417 / 9007199254740992\<rparr>,
      2, [SearchArtistCall ''X'', GetArtistTopTracksCall ''a1'']) \<and>
   normalized exampleLib ''X'' = normalized exampleLib (Artist_Name (mkArtist ''a1'' ''X'')) \<and>
   normalized exampleLib ''Y'' = normalized exampleLib (Track_Name (mkTrack ''t1'' ''Y'' [])) \<and>
   normalized exampleLib [] =
     normalized exampleLib (Album_Name (Track_Album (mkTrack ''t1'' ''Y'' []))) \<and>
   (8331659310635417 / 9007199254740992 :: rat) \<noteq> 1"
proof -
  have 1: "FindBestSongMatchWithAlbum exampleLib noAlbumSearcher ''X'' ''Y'' [] (0, []) =
     (Inr \<lparr>Match_Artist = mkArtist ''a1'' ''X'', Match_Track = mkTrack ''t1'' ''Y'' [],
           ArtistQuery = ''X'', SongQuery = ''Y'', AlbumQuery = [],
           ArtistConfidence = 1, SongConfidence = 1, AlbumConfidence = 1 / 2,
           OverallConfidence = 8331659310635417 / 9007199254740992\<rparr>,
      2, [SearchArtistCall ''X'', GetArtistTopTracksCall ''a1''])"
    by code_simp
  have 2: "normalized exampleLib ''X'' = normalized exampleLib (Artist_Name (mkArtist ''a1'' ''X''))"
    "normalized exampleLib ''Y'' = normalized exampleLib (Track_Name (mkTrack ''t1'' ''Y'' []))"
    "normalized exampleLib [] =
       normalized exampleLib (Album_Name (Track_Album (mkTrack ''t1'' ''Y'' [])))"
    by (simp_all add: mkArtist_def mkTrack_def)
  from 1 2 show ?thesis by simp
qed

text \<open>
  Claim C6, amended.  If the artist query, the song query and the album query are equal,
  case-insensitively and after trimming, to the matched artist's name, the selected
  track's title and its album name, and neither the album query nor the album name is
  empty or white space only, then the overall confidence is exactly 1.0.
\<close>

theorem exact_match_overall:
  assumes r: "FindBestSongMatchWithAlbum lib f artistQuery songQuery albumQuery w = (Inr m, w')"
    and ea: "normalized lib artistQuery = normalized lib (Artist_Name (Match_Artist m))"
    and es: "normalized lib songQuery = normalized lib (Track_Name (Match_Track m))"
    and el: "normalized lib albumQuery =
               normalized lib (Album_Name (Track_Album (Match_Track m)))"
    and nq: "\<not> whitespaceOnly albumQuery"
    and nn: "\<not> whitespaceOnly (Album_Name (Track_Album (Match_Track m)))"
  shows "OverallConfidence m = 1"
proof -
  from FindBest_success [OF r] obtain artist tracks w1 where
    a: "TrimSpace artistQuery \<noteq> []"
    and sa: "doSearchArtist (spotify f) artistQuery w = (Inr artist, w1)"
    and gt: "doGetArtistTopTracks (spotify f) (Artist_ID artist) w1 = (Inr tracks, w')"
    and ne: "tracks \<noteq> []" by blast
  have alb: "calculateAlbumConfidence lib albumQuery (Some (Match_Track m)) = 1"
    using el nq nn
    by (simp add: calculateAlbumConfidence_def calculateMatchConfidence_def normalized_def
          TrimSpace_empty_iff lit_1)
  have ov: "OverallConfidence m =
      weighted (ArtistConfidence m) (SongConfidence m) (AlbumConfidence m)"
    using r by (rule FindBest_weighted)
  have "ArtistConfidence m = 1 \<and> SongConfidence m = 1 \<and> AlbumConfidence m = 1"
  proof (cases "TrimSpace songQuery = []")
    case True
    from ne obtain t0 rest where tr: "tracks = t0 # rest" by (cases tracks) auto
    from FindBest_blank [OF a True sa, of t0 rest w' lib albumQuery] gt tr r
    have m: "m = \<lparr>Match_Artist = artist, Match_Track = t0,
            ArtistQuery = artistQuery, SongQuery = [], AlbumQuery = albumQuery,
            ArtistConfidence = calculateMatchConfidence lib artistQuery (Artist_Name artist),
            SongConfidence = lit 1,
            AlbumConfidence = calculateAlbumConfidence lib albumQuery (Some t0),
            OverallConfidence =
              weighted (calculateMatchConfidence lib artistQuery (Artist_Name artist)) (lit 1)
                (calculateAlbumConfidence lib albumQuery (Some t0))\<rparr>"
      by simp
    have "calculateMatchConfidence lib artistQuery (Artist_Name artist) = 1"
      using ea m by (simp add: calculateMatchConfidence_def normalized_def lit_1)
    with alb m show ?thesis by (simp add: lit_1)
  next
    case False
    from FindBest_nonblank [OF a False sa gt ne, of lib albumQuery] r
    obtain k where m: "m = \<lparr>Match_Artist = artist, Match_Track = tracks ! k,
            ArtistQuery = artistQuery, SongQuery = songQuery, AlbumQuery = albumQuery,
            ArtistConfidence = calculateMatchConfidence lib artistQuery (Artist_Name artist),
            SongConfidence = calculateMatchConfidence lib songQuery (Track_Name (tracks ! k)),
            AlbumConfidence = calculateAlbumConfidence lib albumQuery (Some (tracks ! k)),
            OverallConfidence =
              trackOverall lib (calculateMatchConfidence lib artistQuery (Artist_Name artist))
                songQuery albumQuery (tracks ! k)\<rparr>"
      by auto
    have "calculateMatchConfidence lib artistQuery (Artist_Name artist) = 1"
      using ea m by (simp add: calculateMatchConfidence_def normalized_def lit_1)
    moreover have "calculateMatchConfidence lib songQuery (Track_Name (tracks ! k)) = 1"
      using es m by (simp add: calculateMatchConfidence_def normalized_def lit_1)
    ultimately show ?thesis using alb m by simp
  qed
  with ov show ?thesis by (simp add: weighted_ones)
qed

theorem exact_match_overall_witness:
  "FindBestSongMatchWithAlbum exampleLib xyzSearcher '' x '' ''y'' ''Z '' (0, []) =
     (Inr \<lparr>Match_Artist = mkArtist ''a1'' ''X'', Match_Track = mkTrack ''t1'' ''Y'' ''Z'',
           ArtistQuery = '' x '', SongQuery = ''y'', AlbumQuery = ''Z '',
           ArtistConfidence = 1, SongConfidence = 1, AlbumConfidence = 1,
           OverallConfidence = 1\<rparr>,
      2, [SearchArtistCall '' x '', GetArtistTopTracksCall ''a1''])"
proof -
  let ?m = "\<lparr>Match_Artist = mkArtist ''a1'' ''X'', Match_Track = mkTrack ''t1'' ''Y'' ''Z'',
           ArtistQuery = '' x '', SongQuery = ''y'', AlbumQuery = ''Z '',
           ArtistConfidence = calculateMatchConfidence exampleLib '' x '' ''X'',
           SongConfidence = calculateMatchConfidence exampleLib ''y'' ''Y'',
           AlbumConfidence = calculateAlbumConfidence exampleLib ''Z '' (Some (mkTrack ''t1'' ''Y'' ''Z'')),
           OverallConfidence = trackOverall exampleLib (calculateMatchConfidence exampleLib '' x '' ''X'')
              ''y'' ''Z '' (mkTrack ''t1'' ''Y'' ''Z'')\<rparr>"
  have a: "TrimSpace '' x '' \<noteq> []" and s: "TrimSpace ''y'' \<noteq> []"
    by code_simp+
  have sa: "doSearchArtist (spotify xyzSearcher) '' x '' (0, []) =
      (Inr (mkArtist ''a1'' ''X''), (1, [SearchArtistCall '' x '']))"
    by (simp add: doSearchArtist_def xyzSearcher_def fixedService_def)
  have gt: "doGetArtistTopTracks (spotify xyzSearcher) (Artist_ID (mkArtist ''a1'' ''X''))
      (1, [SearchArtistCall '' x '']) =
      (Inr [mkTrack ''t1'' ''Y'' ''Z''], (2, [SearchArtistCall '' x '', GetArtistTopTracksCall ''a1'']))"
    by (simp add: doGetArtistTopTracks_def xyzSearcher_def fixedService_def mkArtist_def)
  have an: "Artist_Name (mkArtist ''a1'' ''X'') = ''X''" by (simp add: mkArtist_def)
  from FindBest_nonblank [OF a s sa gt, of exampleLib "''Z ''"]
  obtain k where k: "k < length [mkTrack ''t1'' ''Y'' ''Z'']"
    and rk: "FindBestSongMatchWithAlbum exampleLib xyzSearcher '' x '' ''y'' ''Z '' (0, []) =
      (Inr \<lparr>Match_Artist = mkArtist ''a1'' ''X'', Match_Track = [mkTrack ''t1'' ''Y'' ''Z''] ! k,
           ArtistQuery = '' x '', SongQuery = ''y'', AlbumQuery = ''Z '',
           ArtistConfidence = calculateMatchConfidence exampleLib '' x '' ''X'',
           SongConfidence = calculateMatchConfidence exampleLib ''y''
             (Track_Name ([mkTrack ''t1'' ''Y'' ''Z''] ! k)),
           AlbumConfidence = calculateAlbumConfidence exampleLib ''Z ''
             (Some ([mkTrack ''t1'' ''Y'' ''Z''] ! k)),
           OverallConfidence = trackOverall exampleLib (calculateMatchConfidence exampleLib '' x '' ''X'')
              ''y'' ''Z '' ([mkTrack ''t1'' ''Y'' ''Z''] ! k)\<rparr>,
       (2, [SearchArtistCall '' x '', GetArtistTopTracksCall ''a1'']))"
    unfolding an firstMax_def by auto
  from k have "k = 0" by simp
  with rk have r: "FindBestSongMatchWithAlbum exampleLib xyzSearcher '' x '' ''y'' ''Z '' (0, []) =
      (Inr ?m, (2, [SearchArtistCall '' x '', GetArtistTopTracksCall ''a1'']))"
    by (simp add: mkTrack_def)
  have n: "normalized exampleLib '' x '' = normalized exampleLib ''X''"
    "normalized exampleLib ''y'' = normalized exampleLib ''Y''"
    "normalized exampleLib ''Z '' = normalized exampleLib ''Z''"
    by code_simp+
  have b: "\<not> whitespaceOnly ''Z ''" "\<not> whitespaceOnly ''Z''"
    unfolding TrimSpace_empty_iff [symmetric] by code_simp+
  have o: "OverallConfidence ?m = 1"
    by (rule exact_match_overall [OF r]) (simp_all add: n b mkArtist_def mkTrack_def)
  have c: "calculateMatchConfidence exampleLib '' x '' ''X'' = 1"
    "calculateMatchConfidence exampleLib ''y'' ''Y'' = 1"
    "calculateAlbumConfidence exampleLib ''Z '' (Some (mkTrack ''t1'' ''Y'' ''Z'')) = 1"
    using n b
    by (simp_all add: calculateAlbumConfidence_def calculateMatchConfidence_def normalized_def
          TrimSpace_empty_iff lit_1 mkTrack_def)
  from r o c show ?thesis by simp
qed

section \<open>The destination check on an empty track list\<close>

text \<open>
  Claim C9.  For every playlist id, service and state, \<open>CheckDuplicates\<close> on an empty
  track list returns, without error, a result with \<open>HasDuplicates = false\<close> and the message
  \<open>No tracks to check\<close>, and leaves the service state and the trace of service calls as
  they were: \<open>CheckTracksInPlaylist\<close> is not called.  On a non-empty list the trace grows
  by exactly that call.
\<close>

theorem CheckDuplicates_empty:
  "CheckDuplicates d now playlistID [] w =
     (Inr \<lparr>HasDuplicates = False, DuplicateTracks = [], LastAdded = 0, ArtistName = [],
           Message = ''No tracks to check''\<rparr>, w) \<and>
   (tracks \<noteq> [] \<longrightarrow>
      snd (snd (CheckDuplicates d now playlistID tracks w)) =
        snd w @ [CheckTracksInPlaylistCall playlistID (map Track_ID tracks)])"
  by (auto simp: CheckDuplicates_def doCheckTracksInPlaylist_def Let_def
      split: prod.splits sum.splits)

theorem CheckDuplicates_empty_witness:
  "CheckDuplicates exampleDuplicateService 7 ''p1'' [] (0, []) =
     (Inr \<lparr>HasDuplicates = False, DuplicateTracks = [], LastAdded = 0, ArtistName = [],
           Message = ''No tracks to check''\<rparr>, (0, [])) \<and>
   snd (snd (CheckDuplicates exampleDuplicateService 7 ''p1'' [mkTrack ''t1'' ''Y'' ''Z''] (0, []))) =
     [CheckTracksInPlaylistCall ''p1'' [''t1'']]"
  using CheckDuplicates_empty [of exampleDuplicateService 7 "''p1''" "(0, [])"
      "[mkTrack ''t1'' ''Y'' ''Z'']"]
  by (simp add: mkTrack_def)

section \<open>The retry budget of the feed client\<close>

text \<open>
  Claim C3.  Once the request is built, a \<open>FetchPlaylist\<close> call makes one, two or three
  HTTP attempts and never more: the next attempt is made exactly when the previous one
  was a transient failure (a transport error, or status 502 or 504), after a sleep of 2
  seconds following the first attempt and of 4 seconds following the second.  The outcome
  of the last attempt made decides the result: a transport error or a status other than
  200 (so every status outside 2xx, and 502 or 504 on the third attempt) is an error;
  a status 200 is accepted, and the result is that of decoding and parsing its body.
\<close>

theorem FetchPlaylist_retry_budget:
  assumes "http_NewRequest env (buildAPIURL env date) = None"
  shows "snd (FetchPlaylist env date) =
           (if attemptsMade env = 1 then [HTTPAttempt 1]
            else if attemptsMade env = 2 then [HTTPAttempt 1, Sleep 2, HTTPAttempt 2]
            else [HTTPAttempt 1, Sleep 2, HTTPAttempt 2, Sleep 4, HTTPAttempt 3]) \<and>
         length (filter isAttempt (snd (FetchPlaylist env date))) = attemptsMade env \<and>
         1 \<le> attemptsMade env \<and> attemptsMade env \<le> 3 \<and>
         (\<forall>n. 1 \<le> n \<and> n < attemptsMade env \<longrightarrow> transient (Do env n)) \<and>
         (attemptsMade env < 3 \<longrightarrow> \<not> transient (Do env (attemptsMade env))) \<and>
         fst (FetchPlaylist env date) =
           (case Do env (attemptsMade env) of
              Inl err \<Rightarrow> Inl (ErrRequestAfterAttempts 3 err)
            | Inr resp \<Rightarrow>
                if StatusCode resp = 200
                then (case DecodeArray env (Body resp) of
                        Inl err \<Rightarrow> Inl (ErrDecodeJSON err)
                      | Inr apiResponse \<Rightarrow> parseResponse env apiResponse)
                else Inl (ErrAPIStatus (StatusCode resp) (Status resp)))"
proof -
  have n: "attemptsMade env = 1 \<or> attemptsMade env = 2 \<or> attemptsMade env = 3"
    by (simp add: attemptsMade_def)
  have tr: "\<forall>n. 1 \<le> n \<and> n < attemptsMade env \<longrightarrow> transient (Do env n)"
  proof (intro allI impI)
    fix k assume k: "1 \<le> k \<and> k < attemptsMade env"
    then have "k = 1 \<or> k = 2" using n by auto
    then show "transient (Do env k)"
    proof
      assume "k = 1"
      with k show ?thesis by (simp add: attemptsMade_def split: if_splits)
    next
      assume "k = 2"
      with k show ?thesis by (simp add: attemptsMade_def split: if_splits)
    qed
  qed
  have pr: "parseResponse env x = Inr (parseTracks env x
      \<lparr>Songs = [], LastUpdated = time_Now env, Source = ''kmhd_api''\<rparr>)" for x
    by (simp add: parseResponse_def)
  have f: "FetchPlaylist env date =
      (case retryLoop env 1 None [] of
            (None, events) \<Rightarrow> (Inl ErrNilResponse, events)
          | (Some (Inl err), events) \<Rightarrow> (Inl (ErrRequestAfterAttempts maxRetries err), events)
          | (Some (Inr resp), events) \<Rightarrow>
              if StatusCode resp \<noteq> 200
              then (Inl (ErrAPIStatus (StatusCode resp) (Status resp)), events)
              else (case DecodeArray env (Body resp) of
                      Inl err \<Rightarrow> (Inl (ErrDecodeJSON err), events)
                    | Inr apiResponse \<Rightarrow>
                       (case parseResponse env apiResponse of
                          Inl err \<Rightarrow> (Inl (ErrParseResponse err), events)
                        | Inr collection \<Rightarrow> (Inr collection, events))))"
    using assms by (simp add: FetchPlaylist_def)
  have ev: "snd (FetchPlaylist env date) =
           (if attemptsMade env = 1 then [HTTPAttempt 1]
            else if attemptsMade env = 2 then [HTTPAttempt 1, Sleep 2, HTTPAttempt 2]
            else [HTTPAttempt 1, Sleep 2, HTTPAttempt 2, Sleep 4, HTTPAttempt 3])"
    unfolding f retryLoop_unrolled attemptsMade_def
    by (simp split: sum.splits)
  have cnt: "length (filter isAttempt (snd (FetchPlaylist env date))) = attemptsMade env"
    unfolding ev using n by auto
  have st: "attemptsMade env < 3 \<longrightarrow> \<not> transient (Do env (attemptsMade env))"
    by (simp add: attemptsMade_def)
  have res: "fst (FetchPlaylist env date) =
           (case Do env (attemptsMade env) of
              Inl err \<Rightarrow> Inl (ErrRequestAfterAttempts 3 err)
            | Inr resp \<Rightarrow>
                if StatusCode resp = 200
                then (case DecodeArray env (Body resp) of
                        Inl err \<Rightarrow> Inl (ErrDecodeJSON err)
                      | Inr apiResponse \<Rightarrow> parseResponse env apiResponse)
                else Inl (ErrAPIStatus (StatusCode resp) (Status resp)))"
    unfolding f retryLoop_unrolled attemptsMade_def
    by (simp add: maxRetries_def pr split: sum.splits)
  have b: "1 \<le> attemptsMade env" "attemptsMade env \<le> 3" using n by auto
  from ev cnt b tr st res show ?thesis by blast
qed

theorem FetchPlaylist_retry_budget_witness:
  "FetchPlaylist (exampleEnv flakyThenOk) 0 =
     (Inr \<lparr>Songs = [\<lparr>Song_Artist = ''Miles Davis'', Song_Title = ''So What'',
                     Song_Album = ''Kind of Blue'', PlayedAt = 1000, RawText = ''e1''\<rparr>],
           LastUpdated = 1000, Source = ''kmhd_api''\<rparr>,
      [HTTPAttempt 1, Sleep 2, HTTPAttempt 2, Sleep 4, HTTPAttempt 3]) \<and>
   FetchPlaylist (exampleEnv (\<lambda>n. badGateway)) 0 =
     (Inl (ErrAPIStatus 502 ''502 Bad Gateway''),
      [HTTPAttempt 1, Sleep 2, HTTPAttempt 2, Sleep 4, HTTPAttempt 3]) \<and>
   FetchPlaylist (exampleEnv (\<lambda>n. okResponse)) 0 =
     (Inr \<lparr>Songs = [\<lparr>Song_Artist = ''Miles Davis'', Song_Title = ''So What'',
                     Song_Album = ''Kind of Blue'', PlayedAt = 1000, RawText = ''e1''\<rparr>],
           LastUpdated = 1000, Source = ''kmhd_api''\<rparr>,
      [HTTPAttempt 1])"
proof -
  have nr: "http_NewRequest (exampleEnv outcomes) (buildAPIURL (exampleEnv outcomes) 0) = None"
    for outcomes by (simp add: exampleEnv_def)
  have a1: "attemptsMade (exampleEnv flakyThenOk) = 3"
    by (simp add: attemptsMade_def exampleEnv_def flakyThenOk_def transient_def badGateway_def)
  have a2: "attemptsMade (exampleEnv (\<lambda>n. badGateway)) = 3"
    by (simp add: attemptsMade_def exampleEnv_def transient_def badGateway_def)
  have a3: "attemptsMade (exampleEnv (\<lambda>n. okResponse)) = 1"
    by (simp add: attemptsMade_def exampleEnv_def transient_def okResponse_def)
  have d: "Do (exampleEnv outcomes) n = outcomes n"
    "DecodeArray (exampleEnv outcomes) ''[e1,e2,e3]'' = Inr [''e1'', ''e2'', ''e3'']"
    for outcomes n by (simp_all add: exampleEnv_def)
  note b1 = FetchPlaylist_retry_budget [OF nr, of flakyThenOk, unfolded a1]
  note b2 = FetchPlaylist_retry_budget [OF nr, of "\<lambda>n. badGateway", unfolded a2]
  note b3 = FetchPlaylist_retry_budget [OF nr, of "\<lambda>n. okResponse", unfolded a3]
  have 1: "FetchPlaylist (exampleEnv flakyThenOk) 0 =
     (Inr \<lparr>Songs = [\<lparr>Song_Artist = ''Miles Davis'', Song_Title = ''So What'',
                     Song_Album = ''Kind of Blue'', PlayedAt = 1000, RawText = ''e1''\<rparr>],
           LastUpdated = 1000, Source = ''kmhd_api''\<rparr>,
      [HTTPAttempt 1, Sleep 2, HTTPAttempt 2, Sleep 4, HTTPAttempt 3])"
  proof -
    from b1 have "snd (FetchPlaylist (exampleEnv flakyThenOk) 0) =
        [HTTPAttempt 1, Sleep 2, HTTPAttempt 2, Sleep 4, HTTPAttempt 3]" by simp
    moreover from b1 have "fst (FetchPlaylist (exampleEnv flakyThenOk) 0) =
        parseResponse (exampleEnv flakyThenOk) [''e1'', ''e2'', ''e3'']"
      by (simp add: d flakyThenOk_def okResponse_def)
    ultimately show ?thesis by (simp add: example_parse prod_eq_iff)
  qed
  have 2: "FetchPlaylist (exampleEnv (\<lambda>n. badGateway)) 0 =
     (Inl (ErrAPIStatus 502 ''502 Bad Gateway''),
      [HTTPAttempt 1, Sleep 2, HTTPAttempt 2, Sleep 4, HTTPAttempt 3])"
  proof -
    from b2 have "snd (FetchPlaylist (exampleEnv (\<lambda>n. badGateway)) 0) =
        [HTTPAttempt 1, Sleep 2, HTTPAttempt 2, Sleep 4, HTTPAttempt 3]" by simp
    moreover from b2 have "fst (FetchPlaylist (exampleEnv (\<lambda>n. badGateway)) 0) =
        (case badGateway of
              Inl err \<Rightarrow> Inl (ErrRequestAfterAttempts 3 err)
            | Inr resp \<Rightarrow>
                if StatusCode resp = 200
                then (case DecodeArray (exampleEnv (\<lambda>n. badGateway)) (Body resp) of
                        Inl err \<Rightarrow> Inl (ErrDecodeJSON err)
                      | Inr apiResponse \<Rightarrow> parseResponse (exampleEnv (\<lambda>n. badGateway)) apiResponse)
                else Inl (ErrAPIStatus (StatusCode resp) (Status resp)))"
      by (simp add: d)
    ultimately show ?thesis by (simp add: badGateway_def prod_eq_iff)
  qed
  have 3: "FetchPlaylist (exampleEnv (\<lambda>n. okResponse)) 0 =
     (Inr \<lparr>Songs = [\<lparr>Song_Artist = ''Miles Davis'', Song_Title = ''So What'',
                     Song_Album = ''Kind of Blue'', PlayedAt = 1000, RawText = ''e1''\<rparr>],
           LastUpdated = 1000, Source = ''kmhd_api''\<rparr>,
      [HTTPAttempt 1])"
  proof -
    from b3 have "snd (FetchPlaylist (exampleEnv (\<lambda>n. okResponse)) 0) = [HTTPAttempt 1]"
      by simp
    moreover from b3 have "fst (FetchPlaylist (exampleEnv (\<lambda>n. okResponse)) 0) =
        (case okResponse of
              Inl err \<Rightarrow> Inl (ErrRequestAfterAttempts 3 err)
            | Inr resp \<Rightarrow>
                if StatusCode resp = 200
                then (case DecodeArray (exampleEnv (\<lambda>n. okResponse)) (Body resp) of
                        Inl err \<Rightarrow> Inl (ErrDecodeJSON err)
                      | Inr apiResponse \<Rightarrow> parseResponse (exampleEnv (\<lambda>n. okResponse)) apiResponse)
                else Inl (ErrAPIStatus (StatusCode resp) (Status resp)))"
      by (simp add: d)
    ultimately show ?thesis by (simp add: okResponse_def d example_parse prod_eq_iff)
  qed
  from 1 2 3 show ?thesis by blast
qed

section \<open>The records emitted by the feed client\<close>

text \<open>
  Claim C10.  Every song of a collection returned by \<open>parseResponse\<close>, and so by
  \<open>FetchPlaylist\<close>, has a non-empty artist and title, and its artist, title and album have
  no white space at either end; it was built from a feed entry whose \<open>artistName\<close> and
  \<open>trackName\<close> are not white space only.  A song built from an entry whose \<open>artistName\<close> or
  \<open>trackName\<close> is white space only is invalid after trimming and is in no returned
  collection, although a song whose artist and title are white space only is valid.
\<close>

theorem emitted_songs_trimmed:
  "((parseResponse env apiResponse = Inr collection \<or>
     fst (FetchPlaylist env date) = Inr collection) \<longrightarrow>
    (\<forall>s \<in> set (Songs collection).
       Song_Artist s \<noteq> [] \<and> Song_Title s \<noteq> [] \<and>
       noSpaceAtEnds (Song_Artist s) \<and> noSpaceAtEnds (Song_Title s) \<and>
       noSpaceAtEnds (Song_Album s) \<and>
       (\<exists>artistName trackName collectionName startTime rawTrack.
          mapTrackToSong env artistName trackName collectionName startTime rawTrack = Inr s \<and>
          \<not> whitespaceOnly artistName \<and> \<not> whitespaceOnly trackName)) \<and>
    (\<forall>artistName trackName collectionName startTime rawTrack s.
       (whitespaceOnly artistName \<or> whitespaceOnly trackName) \<and>
       mapTrackToSong env artistName trackName collectionName startTime rawTrack = Inr s \<longrightarrow>
       \<not> IsValid s \<and> s \<notin> set (Songs collection))) \<and>
   IsValid \<lparr>Song_Artist = '' '', Song_Title = '' '', Song_Album = [], PlayedAt = 0, RawText = []\<rparr>"
proof (intro conjI impI)
  assume "parseResponse env apiResponse = Inr collection \<or>
     fst (FetchPlaylist env date) = Inr collection"
  then obtain raws where pr: "parseResponse env raws = Inr collection"
    using FetchPlaylist_Inr by blast
  have main: "Song_Artist s \<noteq> [] \<and> Song_Title s \<noteq> [] \<and>
       noSpaceAtEnds (Song_Artist s) \<and> noSpaceAtEnds (Song_Title s) \<and>
       noSpaceAtEnds (Song_Album s) \<and>
       (\<exists>artistName trackName collectionName startTime rawTrack.
          mapTrackToSong env artistName trackName collectionName startTime rawTrack = Inr s \<and>
          \<not> whitespaceOnly artistName \<and> \<not> whitespaceOnly trackName)"
    if s: "s \<in> set (Songs collection)" for s
  proof -
    from parseResponse_songs [OF pr s] obtain rawTrack where
      p: "parseTrackObject env rawTrack = Inr s" and v: "IsValid s" by blast
    from parseTrackObject_Inr [OF p] obtain a t c st where
      m: "mapTrackToSong env a t c st rawTrack = Inr s" by blast
    note f = mapTrackToSong_fields [OF m]
    from v f have "TrimSpace a \<noteq> []" "TrimSpace t \<noteq> []" by (simp_all add: IsValid_def)
    then have w: "\<not> whitespaceOnly a" "\<not> whitespaceOnly t"
      by (simp_all add: TrimSpace_empty_iff)
    have e: "\<exists>artistName trackName collectionName startTime rawTrack.
          mapTrackToSong env artistName trackName collectionName startTime rawTrack = Inr s \<and>
          \<not> whitespaceOnly artistName \<and> \<not> whitespaceOnly trackName"
      using m w by blast
    have "noSpaceAtEnds (Song_Artist s)" "noSpaceAtEnds (Song_Title s)"
      "noSpaceAtEnds (Song_Album s)"
      using f TrimSpace_noSpaceAtEnds by simp_all
    with v e show ?thesis by (simp add: IsValid_def)
  qed
  then show "\<forall>s \<in> set (Songs collection).
       Song_Artist s \<noteq> [] \<and> Song_Title s \<noteq> [] \<and>
       noSpaceAtEnds (Song_Artist s) \<and> noSpaceAtEnds (Song_Title s) \<and>
       noSpaceAtEnds (Song_Album s) \<and>
       (\<exists>artistName trackName collectionName startTime rawTrack.
          mapTrackToSong env artistName trackName collectionName startTime rawTrack = Inr s \<and>
          \<not> whitespaceOnly artistName \<and> \<not> whitespaceOnly trackName)" by blast
  show "\<forall>artistName trackName collectionName startTime rawTrack s.
       (whitespaceOnly artistName \<or> whitespaceOnly trackName) \<and>
       mapTrackToSong env artistName trackName collectionName startTime rawTrack = Inr s \<longrightarrow>
       \<not> IsValid s \<and> s \<notin> set (Songs collection)"
  proof (intro allI impI)
    fix a t c st rawTrack s
    assume h: "(whitespaceOnly a \<or> whitespaceOnly t) \<and>
       mapTrackToSong env a t c st rawTrack = Inr s"
    then have f: "Song_Artist s = TrimSpace a" "Song_Title s = TrimSpace t"
      using mapTrackToSong_fields by blast+
    from h have "TrimSpace a = [] \<or> TrimSpace t = []" by (simp add: TrimSpace_empty_iff)
    with f have nv: "\<not> IsValid s" by (auto simp: IsValid_def)
    moreover have "s \<notin> set (Songs collection)"
    proof
      assume "s \<in> set (Songs collection)"
      from main [OF this] nv show False by (simp add: IsValid_def)
    qed
    ultimately show "\<not> IsValid s \<and> s \<notin> set (Songs collection)" by blast
  qed
next
  show "IsValid \<lparr>Song_Artist = '' '', Song_Title = '' '', Song_Album = [], PlayedAt = 0, RawText = []\<rparr>"
    by (simp add: IsValid_def)
qed

theorem emitted_songs_trimmed_witness:
  "parseResponse (exampleEnv flakyThenOk) [''e1'', ''e2'', ''e3''] =
     Inr \<lparr>Songs = [\<lparr>Song_Artist = ''Miles Davis'', Song_Title = ''So What'',
                    Song_Album = ''Kind of Blue'', PlayedAt = 1000, RawText = ''e1''\<rparr>],
          LastUpdated = 1000, Source = ''kmhd_api''\<rparr> \<and>
   noSpaceAtEnds ''Miles Davis'' \<and> noSpaceAtEnds ''So What'' \<and> noSpaceAtEnds ''Kind of Blue'' \<and>
   mapTrackToSong (exampleEnv flakyThenOk) ''   '' ''Blue in Green'' [] [] ''e2'' =
     Inr \<lparr>Song_Artist = [], Song_Title = ''Blue in Green'', Song_Album = [],
          PlayedAt = 1000, RawText = ''e2''\<rparr> \<and>
   \<not> IsValid \<lparr>Song_Artist = [], Song_Title = ''Blue in Green'', Song_Album = [],
          PlayedAt = 1000, RawText = ''e2''\<rparr> \<and>
   \<lparr>Song_Artist = [], Song_Title = ''Blue in Green'', Song_Album = [],
          PlayedAt = 1000, RawText = ''e2''\<rparr> \<notin>
     set [\<lparr>Song_Artist = ''Miles Davis'', Song_Title = ''So What'',
                    Song_Album = ''Kind of Blue'', PlayedAt = 1000, RawText = ''e1''\<rparr>]"
proof -
  let ?env = "exampleEnv flakyThenOk"
  let ?s1 = "\<lparr>Song_Artist = ''Miles Davis'', Song_Title = ''So What'',
                    Song_Album = ''Kind of Blue'', PlayedAt = 1000, RawText = ''e1''\<rparr>"
  let ?s2 = "\<lparr>Song_Artist = [], Song_Title = ''Blue in Green'', Song_Album = [],
          PlayedAt = 1000, RawText = ''e2''\<rparr>"
  let ?coll = "\<lparr>Songs = [?s1], LastUpdated = 1000, Source = ''kmhd_api''\<rparr>"
  note p = example_parse [of flakyThenOk]
  have w: "whitespaceOnly ''   ''"
    unfolding TrimSpace_empty_iff [symmetric] by code_simp
  have t: "TrimSpace ''   '' = []" "TrimSpace ''Blue in Green'' = ''Blue in Green''"
    "TrimSpace [] = []"
    by code_simp+
  have m: "mapTrackToSong ?env ''   '' ''Blue in Green'' [] [] ''e2'' = Inr ?s2"
    by (simp add: mapTrackToSong_def exampleEnv_def Let_def t)
  note th = emitted_songs_trimmed [of ?env "[''e1'', ''e2'', ''e3'']" ?coll 0]
  from th p have "\<forall>s \<in> set (Songs ?coll).
       noSpaceAtEnds (Song_Artist s) \<and> noSpaceAtEnds (Song_Title s) \<and>
       noSpaceAtEnds (Song_Album s)" by blast
  then have n: "noSpaceAtEnds ''Miles Davis'' \<and> noSpaceAtEnds ''So What'' \<and>
      noSpaceAtEnds ''Kind of Blue''" by simp
  from th p w m have "\<not> IsValid ?s2 \<and> ?s2 \<notin> set (Songs ?coll)" by blast
  with p n m show ?thesis by simp
qed

section \<open>Failure isolation in the sync loop\<close>

text \<open>
  Claim C4.  \<open>syncSongsToSpotify\<close> runs its loop over the whole list, from both counts at
  zero, and handles every song in order: each song is announced once, and is then counted
  either as synced or as skipped, so the two counts add up to the number of songs.  What
  happens to one song is one of five things, and after each of them the loop goes on with
  the remaining songs:
  \<^item> the matcher returns an error: the song is skipped, and no request is made for it to
    the playlist;
  \<^item> the match has an overall confidence below 0.5: the song is skipped, and no request
    is made for it to the playlist;
  \<^item> the destination check answers that the track is there: the song is skipped, and no
    write is requested;
  \<^item> the check fails or answers that the track is not there, and the write fails: the song
    is skipped;
  \<^item> the check fails or answers that the track is not there, and the write succeeds: the
    song is synced.

  The loop over no song returns its state, and the run over a list \<open>xs @ ys\<close> is the run
  over \<open>ys\<close> started from where the run over \<open>xs\<close> ended.
\<close>

theorem syncSongsToSpotify_attempts_all:
  "(syncSongsToSpotify lib songs spotifyService fuzzySongSearcher targetPlaylist seenSongs w =
      (syncedCount, skippedCount, out, w') \<longrightarrow>
      syncedCount + skippedCount = length songs \<and>
      filter isFound out = map (\<lambda>s. FoundOnKMHD (Song_String s)) songs \<and>
      syncedCount = length (filter isSynced out) \<and>
      skippedCount = length (filter isSkipped out)) \<and>
   syncSongsToSpotify lib songs spotifyService fuzzySongSearcher targetPlaylist seenSongs w =
     (case syncLoop lib fuzzySongSearcher spotifyService targetPlaylist songs (0, 0, [], w) of
        (synced', skipped', shown', v') \<Rightarrow>
          (synced', skipped',
           shown' @ (if songs = [] then []
                     else [SyncSummary (length songs) synced' skipped'
                             (Playlist_Name targetPlaylist)]),
           v')) \<and>
   syncLoop lib fuzzySongSearcher spotifyService targetPlaylist (xs @ ys) state =
     syncLoop lib fuzzySongSearcher spotifyService targetPlaylist ys
       (syncLoop lib fuzzySongSearcher spotifyService targetPlaylist xs state) \<and>
   syncLoop lib fuzzySongSearcher spotifyService targetPlaylist [] state = state \<and>
   (FindBestSongMatchWithAlbum lib fuzzySongSearcher
        (Song_Artist song) (Song_Title song) (Song_Album song) v = (Inl err, v1) \<longrightarrow>
      syncLoop lib fuzzySongSearcher spotifyService targetPlaylist (song # rest)
          (synced, skipped, shown, v) =
        syncLoop lib fuzzySongSearcher spotifyService targetPlaylist rest
          (synced, skipped + 1,
           shown @ [FoundOnKMHD (Song_String song), CouldNotFind err], v1)) \<and>
   (FindBestSongMatchWithAlbum lib fuzzySongSearcher
        (Song_Artist song) (Song_Title song) (Song_Album song) v = (Inr m, v1) \<longrightarrow>
      OverallConfidence m < lit (5/10) \<longrightarrow>
      syncLoop lib fuzzySongSearcher spotifyService targetPlaylist (song # rest)
          (synced, skipped, shown, v) =
        syncLoop lib fuzzySongSearcher spotifyService targetPlaylist rest
          (synced, skipped + 1,
           shown @ [FoundOnKMHD (Song_String song), LowConfidenceMatch (OverallConfidence m)],
           v1)) \<and>
   (FindBestSongMatchWithAlbum lib fuzzySongSearcher
        (Song_Artist song) (Song_Title song) (Song_Album song) v = (Inr m, v1) \<longrightarrow>
      \<not> OverallConfidence m < lit (5/10) \<longrightarrow>
      doCheckTracksInPlaylist spotifyService (Playlist_ID targetPlaylist)
        [Track_ID (Match_Track m)] v1 = (existing, v2) \<longrightarrow>
      alreadyThere existing \<longrightarrow>
      syncLoop lib fuzzySongSearcher spotifyService targetPlaylist (song # rest)
          (synced, skipped, shown, v) =
        syncLoop lib fuzzySongSearcher spotifyService targetPlaylist rest
          (synced, skipped + 1,
           shown @ [FoundOnKMHD (Song_String song), matchLine m,
                    AlreadyInPlaylist (Track_Name (Match_Track m))],
           v2)) \<and>
   (FindBestSongMatchWithAlbum lib fuzzySongSearcher
        (Song_Artist song) (Song_Title song) (Song_Album song) v = (Inr m, v1) \<longrightarrow>
      \<not> OverallConfidence m < lit (5/10) \<longrightarrow>
      doCheckTracksInPlaylist spotifyService (Playlist_ID targetPlaylist)
        [Track_ID (Match_Track m)] v1 = (existing, v2) \<longrightarrow>
      \<not> alreadyThere existing \<longrightarrow>
      doAddTracksToPlaylist spotifyService (Playlist_ID targetPlaylist)
        [Track_ID (Match_Track m)] v2 = (Some addErr, v3) \<longrightarrow>
      syncLoop lib fuzzySongSearcher spotifyService targetPlaylist (song # rest)
          (synced, skipped, shown, v) =
        syncLoop lib fuzzySongSearcher spotifyService targetPlaylist rest
          (synced, skipped + 1,
           shown @ [FoundOnKMHD (Song_String song), matchLine m, FailedToAdd addErr], v3)) \<and>
   (FindBestSongMatchWithAlbum lib fuzzySongSearcher
        (Song_Artist song) (Song_Title song) (Song_Album song) v = (Inr m, v1) \<longrightarrow>
      \<not> OverallConfidence m < lit (5/10) \<longrightarrow>
      doCheckTracksInPlaylist spotifyService (Playlist_ID targetPlaylist)
        [Track_ID (Match_Track m)] v1 = (existing, v2) \<longrightarrow>
      \<not> alreadyThere existing \<longrightarrow>
      doAddTracksToPlaylist spotifyService (Playlist_ID targetPlaylist)
        [Track_ID (Match_Track m)] v2 = (None, v4) \<longrightarrow>
      syncLoop lib fuzzySongSearcher spotifyService targetPlaylist (song # rest)
          (synced, skipped, shown, v) =
        syncLoop lib fuzzySongSearcher spotifyService targetPlaylist rest
          (synced + 1, skipped,
           shown @ [FoundOnKMHD (Song_String song), matchLine m,
                    AddedToPlaylist (Track_Name (Match_Track m))],
           v4))"
proof (intro conjI impI)
  assume r: "syncSongsToSpotify lib songs spotifyService fuzzySongSearcher targetPlaylist
      seenSongs w = (syncedCount, skippedCount, out, w')"
  from syncLoop_tally [of lib fuzzySongSearcher spotifyService targetPlaylist songs 0 0 "[]" w]
  obtain synced' skipped' ext w1 where
    l: "syncLoop lib fuzzySongSearcher spotifyService targetPlaylist songs (0, 0, [], w) =
         (synced', skipped', ext, w1)"
    and f: "filter isFound ext = map (\<lambda>s. FoundOnKMHD (Song_String s)) songs"
    and a: "synced' = length (filter isSynced ext)"
    and k: "skipped' = length (filter isSkipped ext)"
    and t: "synced' + skipped' = length songs"
    by auto
  from r l have e: "syncedCount = synced'" "skippedCount = skipped'"
    "out = (if length songs > 0
            then ext @ [SyncSummary (length songs) synced' skipped' (Playlist_Name targetPlaylist)]
            else ext)"
    by (auto simp: syncSongsToSpotify_def)
  show "syncedCount + skippedCount = length songs" using e t by simp
  show "filter isFound out = map (\<lambda>s. FoundOnKMHD (Song_String s)) songs"
    using e f by simp
  show "syncedCount = length (filter isSynced out)" using e a by simp
  show "skippedCount = length (filter isSkipped out)" using e k by simp
next
  show "syncSongsToSpotify lib songs spotifyService fuzzySongSearcher targetPlaylist seenSongs w =
     (case syncLoop lib fuzzySongSearcher spotifyService targetPlaylist songs (0, 0, [], w) of
        (synced', skipped', shown', v') \<Rightarrow>
          (synced', skipped',
           shown' @ (if songs = [] then []
                     else [SyncSummary (length songs) synced' skipped'
                             (Playlist_Name targetPlaylist)]),
           v'))"
    by (simp add: syncSongsToSpotify_def split: prod.splits)
next
  show "syncLoop lib fuzzySongSearcher spotifyService targetPlaylist (xs @ ys) state =
     syncLoop lib fuzzySongSearcher spotifyService targetPlaylist ys
       (syncLoop lib fuzzySongSearcher spotifyService targetPlaylist xs state)"
    by (rule syncLoop_append)
qed (simp_all add: Let_def matchLine_def alreadyThere_iff)

theorem syncSongsToSpotify_attempts_all_witness:
  "syncSongsToSpotify exampleLib exampleSongs exampleCatalog \<lparr>spotify = exampleCatalog\<rparr>
     examplePlaylist Map.empty (([], 0), []) =
   (1, 4,
    [FoundOnKMHD ''X - Y'',
     FoundMatch ''X'' ''Y'' 1 1 (8331659310635417 / 9007199254740992),
     FailedToAdd (ErrExternal ''rate limited''),
     FoundOnKMHD ''X - Y'',
     FoundMatch ''X'' ''Y'' 1 1 (8331659310635417 / 9007199254740992),
     AddedToPlaylist ''Y'',
     FoundOnKMHD ''X - Y'',
     FoundMatch ''X'' ''Y'' 1 1 (8331659310635417 / 9007199254740992),
     AlreadyInPlaylist ''Y'',
     FoundOnKMHD ''  - U'', CouldNotFind ErrArtistQueryEmpty,
     FoundOnKMHD ''Q - W'', LowConfidenceMatch (2882303761517117 / 18014398509481984),
     SyncSummary 5 1 4 ''KMHD-2025-10''],
    ([''t1''], 2),
    [SearchArtistCall ''X'', GetArtistTopTracksCall ''a1'',
     CheckTracksInPlaylistCall ''p1'' [''t1''], AddTracksToPlaylistCall ''p1'' [''t1''],
     SearchArtistCall ''X'', GetArtistTopTracksCall ''a1'',
     CheckTracksInPlaylistCall ''p1'' [''t1''], AddTracksToPlaylistCall ''p1'' [''t1''],
     SearchArtistCall ''X'', GetArtistTopTracksCall ''a1'',
     CheckTracksInPlaylistCall ''p1'' [''t1''],
     SearchArtistCall ''Q'', GetArtistTopTracksCall ''a1'']) \<and>
   (1::nat) + 4 = length exampleSongs"
proof -
  let ?f = "\<lparr>spotify = exampleCatalog\<rparr>"
  let ?L = "syncLoop exampleLib ?f exampleCatalog examplePlaylist"
  let ?s1 = "play ''X'' ''Y'' 1" and ?s2 = "play ''X'' ''Y'' 2" and ?s3 = "play ''X'' ''Y'' 3"
  let ?s4 = "play '' '' ''U'' 4" and ?s5 = "play ''Q'' ''W'' 5"
  let ?SA = "SearchArtistCall ''X''" and ?GT = "GetArtistTopTracksCall ''a1''"
  let ?CK = "CheckTracksInPlaylistCall ''p1'' [''t1'']"
  let ?AD = "AddTracksToPlaylistCall ''p1'' [''t1'']"
  let ?w0 = "(([]::string list, 0::nat), []::call list)"
  let ?w0a = "(([]::string list, 0::nat), [?SA, ?GT])"
  let ?w0b = "(([]::string list, 0::nat), [?SA, ?GT, ?CK])"
  let ?w1 = "(([]::string list, 1::nat), [?SA, ?GT, ?CK, ?AD])"
  let ?w1a = "(([]::string list, 1::nat), [?SA, ?GT, ?CK, ?AD, ?SA, ?GT])"
  let ?w1b = "(([]::string list, 1::nat), [?SA, ?GT, ?CK, ?AD, ?SA, ?GT, ?CK])"
  let ?w2 = "(([''t1''], 2::nat), [?SA, ?GT, ?CK, ?AD, ?SA, ?GT, ?CK, ?AD])"
  let ?w2a = "(([''t1''], 2::nat), [?SA, ?GT, ?CK, ?AD, ?SA, ?GT, ?CK, ?AD, ?SA, ?GT])"
  let ?w3 = "(([''t1''], 2::nat), [?SA, ?GT, ?CK, ?AD, ?SA, ?GT, ?CK, ?AD, ?SA, ?GT, ?CK])"
  let ?w5 = "(([''t1''], 2::nat), [?SA, ?GT, ?CK, ?AD, ?SA, ?GT, ?CK, ?AD, ?SA, ?GT, ?CK,
                SearchArtistCall ''Q'', ?GT])"
  note steps =
    syncSongsToSpotify_attempts_all [THEN conjunct2, THEN conjunct2, THEN conjunct2, THEN conjunct2]
  note noMatch = steps [THEN conjunct1, rule_format]
  note lowConfidence = steps [THEN conjunct2, THEN conjunct1, rule_format]
  note duplicate = steps [THEN conjunct2, THEN conjunct2, THEN conjunct1, rule_format]
  note writeError =
    steps [THEN conjunct2, THEN conjunct2, THEN conjunct2, THEN conjunct1, rule_format]
  note added = steps [THEN conjunct2, THEN conjunct2, THEN conjunct2, THEN conjunct2, rule_format]
  have high: "\<not> OverallConfidence exampleMatch < lit (5/10)" by code_simp
  have low: "OverallConfidence exampleLowMatch < lit (5/10)" by code_simp
  have m1: "FindBestSongMatchWithAlbum exampleLib ?f (Song_Artist ?s1) (Song_Title ?s1)
      (Song_Album ?s1) ?w0 = (Inr exampleMatch, ?w0a)" by code_simp
  have c1: "doCheckTracksInPlaylist exampleCatalog (Playlist_ID examplePlaylist)
      [Track_ID (Match_Track exampleMatch)] ?w0a = (Inr [False], ?w0b)" by code_simp
  have a1: "doAddTracksToPlaylist exampleCatalog (Playlist_ID examplePlaylist)
      [Track_ID (Match_Track exampleMatch)] ?w0b = (Some (ErrExternal ''rate limited''), ?w1)"
    by code_simp
  have m2: "FindBestSongMatchWithAlbum exampleLib ?f (Song_Artist ?s2) (Song_Title ?s2)
      (Song_Album ?s2) ?w1 = (Inr exampleMatch, ?w1a)" by code_simp
  have c2: "doCheckTracksInPlaylist exampleCatalog (Playlist_ID examplePlaylist)
      [Track_ID (Match_Track exampleMatch)] ?w1a = (Inr [False], ?w1b)" by code_simp
  have a2: "doAddTracksToPlaylist exampleCatalog (Playlist_ID examplePlaylist)
      [Track_ID (Match_Track exampleMatch)] ?w1b = (None, ?w2)" by code_simp
  have m3: "FindBestSongMatchWithAlbum exampleLib ?f (Song_Artist ?s3) (Song_Title ?s3)
      (Song_Album ?s3) ?w2 = (Inr exampleMatch, ?w2a)" by code_simp
  have c3: "doCheckTracksInPlaylist exampleCatalog (Playlist_ID examplePlaylist)
      [Track_ID (Match_Track exampleMatch)] ?w2a = (Inr [True], ?w3)" by code_simp
  have m4: "FindBestSongMatchWithAlbum exampleLib ?f (Song_Artist ?s4) (Song_Title ?s4)
      (Song_Album ?s4) ?w3 = (Inl ErrArtistQueryEmpty, ?w3)" by code_simp
  have m5: "FindBestSongMatchWithAlbum exampleLib ?f (Song_Artist ?s5) (Song_Title ?s5)
      (Song_Album ?s5) ?w3 = (Inr exampleLowMatch, ?w5)" by code_simp
  have n: "\<not> alreadyThere (Inr [False])" and y: "alreadyThere (Inr [True])" by simp_all
  note s1 = writeError [OF m1 high c1 n a1]
  note s2 = added [OF m2 high c2 n a2]
  note s3 = duplicate [OF m3 high c3 y]
  note s4 = noMatch [OF m4]
  note s5 = lowConfidence [OF m5 low]
  note s6 =
    syncSongsToSpotify_attempts_all [THEN conjunct2, THEN conjunct2, THEN conjunct2, THEN conjunct1]
  have loop: "?L [?s1, ?s2, ?s3, ?s4, ?s5] (0, 0, [], ?w0) =
      (0 + 1, 0 + 1 + 1 + 1 + 1,
       [] @ [FoundOnKMHD (Song_String ?s1), matchLine exampleMatch,
             FailedToAdd (ErrExternal ''rate limited'')]
          @ [FoundOnKMHD (Song_String ?s2), matchLine exampleMatch,
             AddedToPlaylist (Track_Name (Match_Track exampleMatch))]
          @ [FoundOnKMHD (Song_String ?s3), matchLine exampleMatch,
             AlreadyInPlaylist (Track_Name (Match_Track exampleMatch))]
          @ [FoundOnKMHD (Song_String ?s4), CouldNotFind ErrArtistQueryEmpty]
          @ [FoundOnKMHD (Song_String ?s5),
             LowConfidenceMatch (OverallConfidence exampleLowMatch)],
       ?w5)"
    by (simp only: s1 s2 s3 s4 s5 s6 append_assoc)
  have run: "syncSongsToSpotify exampleLib exampleSongs exampleCatalog ?f examplePlaylist
      Map.empty ?w0 =
    (1, 4,
    [FoundOnKMHD ''X - Y'',
     FoundMatch ''X'' ''Y'' 1 1 (8331659310635417 / 9007199254740992),
     FailedToAdd (ErrExternal ''rate limited''),
     FoundOnKMHD ''X - Y'',
     FoundMatch ''X'' ''Y'' 1 1 (8331659310635417 / 9007199254740992),
     AddedToPlaylist ''Y'',
     FoundOnKMHD ''X - Y'',
     FoundMatch ''X'' ''Y'' 1 1 (8331659310635417 / 9007199254740992),
     AlreadyInPlaylist ''Y'',
     FoundOnKMHD ''  - U'', CouldNotFind ErrArtistQueryEmpty,
     FoundOnKMHD ''Q - W'', LowConfidenceMatch (2882303761517117 / 18014398509481984),
     SyncSummary 5 1 4 ''KMHD-2025-10''], ?w5)"
    unfolding syncSongsToSpotify_def exampleSongs_def loop
    by (simp add: matchLine_def exampleMatch_def exampleLowMatch_def Song_String_def play_def
        mkArtist_def mkTrack_def examplePlaylist_def)
  from syncSongsToSpotify_attempts_all [THEN conjunct1, rule_format, OF run]
  have "(1::nat) + 4 = length exampleSongs" by simp
  with run show ?thesis by simp
qed

section \<open>Deduplication across two cycles\<close>

text \<open>
  Claim C2, as stated, fails: a feed that holds the same artist and title twice (two plays
  of one song) has two valid songs, and the first cycle returns only the first of them.
\<close>

theorem two_cycles_counterexample:
  "fst (filterNewSongs (\<lambda>i. 0) [play ''A'' ''T'' 1, play ''A'' ''T'' 2] Map.empty Map.empty) =
     [play ''A'' ''T'' 1] \<and>
   filter IsValid [play ''A'' ''T'' 1, play ''A'' ''T'' 2] =
     [play ''A'' ''T'' 1, play ''A'' ''T'' 2] \<and>
   play ''A'' ''T'' 2 \<noteq> play ''A'' ''T'' 1"
  by (simp add: filterNewSongs_def play_def IsValid_def Let_def)

text \<open>
  Claim C2, amended.  With the process-lifetime map empty at the start and a fresh cycle
  map for each cycle, the first cycle's \<open>filterNewSongs\<close> returns, in feed order, every
  valid song whose key \<open>artist - title\<close> has not occurred at an earlier valid song of the
  feed (every valid song when the keys are distinct), and records the key of every valid
  song in the cycle map and in the process-lifetime map; the second cycle's
  \<open>filterNewSongs\<close> over the same feed returns no song.
\<close>

theorem two_cycles:
  assumes "filterNewSongs now1 songs Map.empty Map.empty = (new1, cycle1, global1)"
    and "filterNewSongs now2 songs Map.empty global1 = (new2, cycle2, global2)"
  shows "new1 = firstOfEachKey (filter IsValid songs) \<and>
         (distinct (map SeenKey (filter IsValid songs)) \<longrightarrow> new1 = filter IsValid songs) \<and>
         (\<forall>s \<in> set songs. IsValid s \<longrightarrow>
            cycle1 (SeenKey s) = Some True \<and> global1 (SeenKey s) \<noteq> None) \<and>
         new2 = []"
proof -
  have K0: "seenKeys Map.empty Map.empty = {}" by (simp add: seenKeys_def)
  from filterLoop_spec [of now1 0 songs "[]" Map.empty Map.empty] assms(1)
  have n1: "new1 = firstOfEachKey (filter IsValid songs)"
    and c1: "{k. cycle1 k = Some True} = SeenKey ` {s \<in> set songs. IsValid s}"
    and g1: "dom global1 = SeenKey ` {s \<in> set songs. IsValid s}"
    unfolding K0 by (auto simp: filterNewSongs_def)
  have seen: "cycle1 (SeenKey s) = Some True \<and> global1 (SeenKey s) \<noteq> None"
    if "s \<in> set songs" "IsValid s" for s
  proof -
    from that have "SeenKey s \<in> {k. cycle1 k = Some True}" "SeenKey s \<in> dom global1"
      unfolding c1 g1 by blast+
    then show ?thesis by auto
  qed
  have "filter (\<lambda>s. IsValid s \<and> SeenKey s \<notin> seenKeys Map.empty global1) songs = []"
    unfolding seenKeys_def g1 by (auto simp: filter_empty_conv)
  with filterLoop_spec [of now2 0 songs "[]" Map.empty global1] assms(2)
  have n2: "new2 = []" by (auto simp: filterNewSongs_def)
  from n1 seen n2 show ?thesis by (simp add: firstOfEachKey_distinct)
qed

theorem two_cycles_witness:
  "firstOfEachKey (filter IsValid [play ''A'' ''T'' 1, play [] ''U'' 2, play ''B'' ''T'' 3,
                                   play ''A'' ''T'' 4]) =
     [play ''A'' ''T'' 1, play ''B'' ''T'' 3] \<and>
   fst (filterNewSongs (\<lambda>i. 10 + int i)
          [play ''A'' ''T'' 1, play [] ''U'' 2, play ''B'' ''T'' 3, play ''A'' ''T'' 4]
          Map.empty Map.empty) = [play ''A'' ''T'' 1, play ''B'' ''T'' 3] \<and>
   fst (snd (filterNewSongs (\<lambda>i. 10 + int i)
          [play ''A'' ''T'' 1, play [] ''U'' 2, play ''B'' ''T'' 3, play ''A'' ''T'' 4]
          Map.empty Map.empty)) ''B - T'' = Some True \<and>
   snd (snd (filterNewSongs (\<lambda>i. 10 + int i)
          [play ''A'' ''T'' 1, play [] ''U'' 2, play ''B'' ''T'' 3, play ''A'' ''T'' 4]
          Map.empty Map.empty)) ''B - T'' \<noteq> None \<and>
   fst (filterNewSongs (\<lambda>i. 20 + int i)
          [play ''A'' ''T'' 1, play [] ''U'' 2, play ''B'' ''T'' 3, play ''A'' ''T'' 4]
          Map.empty
          (snd (snd (filterNewSongs (\<lambda>i. 10 + int i)
             [play ''A'' ''T'' 1, play [] ''U'' 2, play ''B'' ''T'' 3, play ''A'' ''T'' 4]
             Map.empty Map.empty)))) = []"
proof -
  let ?songs = "[play ''A'' ''T'' 1, play [] ''U'' 2, play ''B'' ''T'' 3, play ''A'' ''T'' 4]"
  obtain new1 cycle1 global1 where 1:
    "filterNewSongs (\<lambda>i. 10 + int i) ?songs Map.empty Map.empty = (new1, cycle1, global1)"
    by (cases "filterNewSongs (\<lambda>i. 10 + int i) ?songs Map.empty Map.empty") auto
  obtain new2 cycle2 global2 where 2:
    "filterNewSongs (\<lambda>i. 20 + int i) ?songs Map.empty global1 = (new2, cycle2, global2)"
    by (cases "filterNewSongs (\<lambda>i. 20 + int i) ?songs Map.empty global1") auto
  have f: "firstOfEachKey (filter IsValid ?songs) = [play ''A'' ''T'' 1, play ''B'' ''T'' 3]"
    by (simp add: IsValid_def play_def SeenKey_def)
  have v: "play ''B'' ''T'' 3 \<in> set ?songs" "IsValid (play ''B'' ''T'' 3)"
    "SeenKey (play ''B'' ''T'' 3) = ''B - T''"
    by (simp_all add: IsValid_def play_def SeenKey_def)
  from two_cycles [OF 1 2] f v have
    "new1 = [play ''A'' ''T'' 1, play ''B'' ''T'' 3]" "cycle1 ''B - T'' = Some True"
    "global1 ''B - T'' \<noteq> None" "new2 = []"
    by (simp, metis, metis, simp)
  with f 1 2 show ?thesis by simp
qed

end
